theory Spec2Isabelle
  imports Complex_Main "HOL-Library.Sublist"
begin

section \<open>Text and numbers as the extractors see them\<close>

text \<open>
  Python strings are sequences of code points. The statements handled by the extractors
  are Spanish text, so a string is modelled as a list of Latin-1 code points: one
  \<^typ>\<open>char\<close> per code point, \<open>CHR 0xA0\<close> for the no-break space, \<open>CHR 0xD3\<close> for
  the capital O with acute accent, and so on. Three Latin-1 letters whose upper case lies
  outside Latin-1 (the sharp s, the y with diaeresis and the micro sign) are left
  unchanged by \<open>upper\<close> below.

  Python floats are idealised as real numbers. Monetary values come from tokens with two
  decimals, for which \<open>round(x, 2)\<close> gives the value back.
\<close>

definition nbsp :: char where
  "nbsp = CHR 0xA0"

definition is_space :: "char \<Rightarrow> bool" where
  "is_space c = (let n = (of_char c :: int) in
     (9 \<le> n \<and> n \<le> 13) \<or> (28 \<le> n \<and> n \<le> 32) \<or> n = 133 \<or> n = 160)"

definition is_digit :: "char \<Rightarrow> bool" where
  "is_digit c = (let n = (of_char c :: int) in 48 \<le> n \<and> n \<le> 57)"

definition is_upper_az :: "char \<Rightarrow> bool" where
  "is_upper_az c = (let n = (of_char c :: int) in 65 \<le> n \<and> n \<le> 90)"

definition upper_char :: "char \<Rightarrow> char" where
  "upper_char c = (let n = (of_char c :: int) in
     if (97 \<le> n \<and> n \<le> 122) \<or> (224 \<le> n \<and> n \<le> 254 \<and> n \<noteq> 247)
     then char_of (n - 32) else c)"

definition upper :: "string \<Rightarrow> string" where
  "upper s = map upper_char s"

text \<open>\<open>k in s\<close> on strings: \<open>k\<close> occurs in \<open>s\<close> as a contiguous block.\<close>

fun contains :: "string \<Rightarrow> string \<Rightarrow> bool" where
  "contains k [] = (k = [])"
| "contains k (c # cs) = (prefix k (c # cs) \<or> contains k cs)"

text \<open>\<open>s.replace(a, b)\<close> for a single character \<open>a\<close>.\<close>

definition replace_char :: "char \<Rightarrow> string \<Rightarrow> string \<Rightarrow> string" where
  "replace_char a b s = concat (map (\<lambda>c. if c = a then b else [c]) s)"

text \<open>\<open>s.strip()\<close>, \<open>s.rstrip()\<close> and \<open>re.sub(r"\s+", " ", s)\<close>.\<close>

definition lstrip :: "string \<Rightarrow> string" where
  "lstrip s = dropWhile is_space s"

definition rstrip :: "string \<Rightarrow> string" where
  "rstrip s = rev (dropWhile is_space (rev s))"

definition strip :: "string \<Rightarrow> string" where
  "strip s = rstrip (lstrip s)"

function collapse_ws :: "string \<Rightarrow> string" where
  "collapse_ws [] = []"
| "collapse_ws (c # cs) =
     (if is_space c then CHR '' '' # collapse_ws (dropWhile is_space cs)
      else c # collapse_ws cs)"
  by pat_completeness auto
termination
  by (relation "measure length") (auto simp: length_dropWhile_le less_Suc_eq_le)

text \<open>
  Python's \<open>round(x)\<close> and \<open>round(x, 2)\<close> round to the nearest value and, on a tie, to
  the even one.
\<close>

definition py_round :: "real \<Rightarrow> int" where
  "py_round x = (let f = \<lfloor>x\<rfloor>; d = x - of_int f in
     if d < 1 / 2 then f else if 1 / 2 < d then f + 1
     else if even f then f else f + 1)"

definition round2 :: "real \<Rightarrow> real" where
  "round2 x = of_int (py_round (x * 100)) / 100"

definition two_decimals :: "real \<Rightarrow> bool" where
  "two_decimals x = (of_int \<lfloor>x * 100\<rfloor> = x * 100)"

section \<open>Regular expressions with Python's matching order\<close>

text \<open>
  The extractors decide almost everything with \<open>re\<close> patterns, and the results depend on
  which match the backtracking matcher finds first. \<open>ends r st\<close> lists every position at
  which a match of \<open>r\<close> starting at \<open>st\<close> can end, in the order in which the matcher
  tries them: the first element is the match that \<open>re\<close> reports. A position is the
  character before it (for \<open>\b\<close> and \<open>^\<close>) and the text after it.
\<close>

datatype rx = Eps | Atom "char \<Rightarrow> bool" | Seq rx rx | Alt rx rx | Star rx | Lazy rx
  | Wordb | Bol | Eol

type_synonym pos = "char option \<times> string"

definition is_word :: "char \<Rightarrow> bool" where
  "is_word c = (let n = (of_char c :: int) in
     (48 \<le> n \<and> n \<le> 57) \<or> (65 \<le> n \<and> n \<le> 90) \<or> n = 95 \<or> (97 \<le> n \<and> n \<le> 122) \<or>
     n = 170 \<or> n = 178 \<or> n = 179 \<or> n = 181 \<or> n = 185 \<or> n = 186 \<or> (188 \<le> n \<and> n \<le> 190) \<or>
     (192 \<le> n \<and> n \<le> 214) \<or> (216 \<le> n \<and> n \<le> 246) \<or> (248 \<le> n \<and> n \<le> 255))"

definition at_wordb :: "pos \<Rightarrow> bool" where
  "at_wordb st = ((case fst st of None \<Rightarrow> False | Some c \<Rightarrow> is_word c) \<noteq>
                  (case snd st of [] \<Rightarrow> False | c # _ \<Rightarrow> is_word c))"

fun ends :: "rx \<Rightarrow> pos \<Rightarrow> pos list" where
  "ends Eps st = [st]"
| "ends (Atom P) st = (case snd st of [] \<Rightarrow> [] | c # cs \<Rightarrow> if P c then [(Some c, cs)] else [])"
| "ends (Seq a b) st = concat (map (ends b) (ends a st))"
| "ends (Alt a b) st = ends a st @ ends b st"
| "ends (Star a) st =
     concat (map (\<lambda>st'. if length (snd st') < length (snd st) then ends (Star a) st' else [])
                 (ends a st)) @ [st]"
| "ends (Lazy a) st =
     st # concat (map (\<lambda>st'. if length (snd st') < length (snd st) then ends (Lazy a) st' else [])
                      (ends a st))"
| "ends Wordb st = (if at_wordb st then [st] else [])"
| "ends Bol st = (if fst st = None then [st] else [])"
| "ends Eol st = (if snd st = [] \<or> snd st = [CHR 0x0A] then [st] else [])"

text \<open>Bounded repetition \<open>r{m,n}\<close>, \<open>r?\<close>, \<open>r+\<close>, and the character classes in use.\<close>

fun times :: "rx \<Rightarrow> nat \<Rightarrow> rx" where
  "times r 0 = Eps"
| "times r (Suc n) = Seq r (times r n)"

fun upto_n :: "rx \<Rightarrow> nat \<Rightarrow> rx" where
  "upto_n r 0 = Eps"
| "upto_n r (Suc n) = Alt (Seq r (upto_n r n)) Eps"

definition rep :: "rx \<Rightarrow> nat \<Rightarrow> nat \<Rightarrow> rx" where
  "rep r m n = Seq (times r m) (upto_n r (n - m))"

definition at_least :: "rx \<Rightarrow> nat \<Rightarrow> rx" where
  "at_least r m = Seq (times r m) (Star r)"

definition opt :: "rx \<Rightarrow> rx" where
  "opt r = Alt r Eps"

definition lit :: "char \<Rightarrow> rx" where
  "lit c = Atom (\<lambda>x. x = c)"

text \<open>A literal character under \<open>(?i)\<close>.\<close>

definition ilit :: "char \<Rightarrow> rx" where
  "ilit c = Atom (\<lambda>x. upper_char x = upper_char c)"

definition one_of :: "string \<Rightarrow> rx" where
  "one_of cs = Atom (\<lambda>x. x \<in> set cs)"

definition digit :: rx where
  "digit = Atom is_digit"

definition space :: rx where
  "space = Atom is_space"

fun seqs :: "rx list \<Rightarrow> rx" where
  "seqs [] = Eps"
| "seqs [r] = r"
| "seqs (r # rs) = Seq r (seqs rs)"

fun alts :: "rx list \<Rightarrow> rx" where
  "alts [] = Atom (\<lambda>x. False)"
| "alts [r] = r"
| "alts (r # rs) = Alt r (alts rs)"

definition lits :: "string \<Rightarrow> rx" where
  "lits w = seqs (map lit w)"

definition ilits :: "string \<Rightarrow> rx" where
  "ilits w = seqs (map ilit w)"

text \<open>
  \<open>search r p s\<close> is \<open>re.search\<close>: the leftmost start with a match, as (characters
  skipped, length of the match); \<open>p\<close> is the character before \<open>s\<close>.
\<close>

fun search :: "rx \<Rightarrow> char option \<Rightarrow> string \<Rightarrow> (nat \<times> nat) option" where
  "search r p [] = (case ends r (p, []) of [] \<Rightarrow> None | _ # _ \<Rightarrow> Some (0, 0))"
| "search r p (c # cs) =
     (case ends r (p, c # cs) of
        e # _ \<Rightarrow> Some (0, Suc (length cs) - length (snd e))
      | [] \<Rightarrow> (case search r (Some c) cs of None \<Rightarrow> None | Some (n, m) \<Rightarrow> Some (Suc n, m)))"

definition matches :: "rx \<Rightarrow> string \<Rightarrow> bool" where
  "matches r s = (search r None s \<noteq> None)"

definition fullmatch :: "rx \<Rightarrow> string \<Rightarrow> bool" where
  "fullmatch r s = list_ex (\<lambda>e. snd e = []) (ends r (None, s))"

text \<open>
  \<open>finditer\<close>: the non-overlapping matches from left to right, as (start, end). After an
  empty match the scan moves on by one character; none of the patterns below matches the
  empty string.
\<close>

function finditer_from :: "rx \<Rightarrow> char option \<Rightarrow> string \<Rightarrow> nat \<Rightarrow> (nat \<times> nat) list" where
  "finditer_from r p s i =
     (case search r p s of
        None \<Rightarrow> []
      | Some (n, m) \<Rightarrow>
          (i + n, i + n + m) #
          (let k = n + (if m = 0 then 1 else m) in
           if length s < k then []
           else finditer_from r (Some (s ! (k - 1))) (drop k s) (i + k)))"
  by pat_completeness auto
termination
  by (relation "measure (\<lambda>(r, p, s, i). length s)") auto

definition finditer :: "rx \<Rightarrow> string \<Rightarrow> (nat \<times> nat) list" where
  "finditer r s = finditer_from r None s 0"

text \<open>\<open>s[a:b]\<close> and \<open>m.group(0)\<close>.\<close>

definition slice :: "string \<Rightarrow> nat \<Rightarrow> nat \<Rightarrow> string" where
  "slice s a b = take (b - a) (drop a s)"

definition group0 :: "string \<Rightarrow> nat \<times> nat \<Rightarrow> string" where
  "group0 s m = slice s (fst m) (snd m)"

definition findall :: "rx \<Rightarrow> string \<Rightarrow> string list" where
  "findall r s = map (group0 s) (finditer r s)"

text \<open>\<open>re.sub(r, repl, s)\<close> for a fixed replacement text.\<close>

fun sub_matches :: "(nat \<times> nat) list \<Rightarrow> string \<Rightarrow> string \<Rightarrow> nat \<Rightarrow> string" where
  "sub_matches [] repl s i = drop i s"
| "sub_matches (m # ms) repl s i = slice s i (fst m) @ repl @ sub_matches ms repl s (snd m)"

definition re_sub :: "rx \<Rightarrow> string \<Rightarrow> string \<Rightarrow> string" where
  "re_sub r repl s = sub_matches (finditer r s) repl s 0"

section \<open>Amount normalisation\<close>

text \<open>
  \<open>_norm_amount\<close> is the same function in the Banorte, Santander and BBVA extractors. The
  builtin \<open>float\<close> either returns a value or raises; the \<open>try\<close> catches what it raises.
\<close>

datatype 'a outcome = Returned 'a | Raised

definition amount_text :: "string \<Rightarrow> string" where
  "amount_text s =
     replace_char CHR '','' [] (replace_char CHR '' '' [] (replace_char CHR ''$'' []
       (replace_char nbsp '' '' s)))"

definition norm_amount_with ::
  "(string \<Rightarrow> 'f outcome) \<Rightarrow> string option \<Rightarrow> ('f::zero) outcome" where
  "norm_amount_with float s =
     (case s of
        None \<Rightarrow> Returned 0
      | Some t \<Rightarrow>
          if t = [] then Returned 0
          else (case float (amount_text t) of
                  Returned v \<Rightarrow> Returned v
                | Raised \<Rightarrow> Returned 0))"

text \<open>
  \<open>float\<close> on decimal literals: optional white space around an optional sign, digits and
  at most one decimal point with a digit on one side of it. What \<open>float\<close> accepts beyond
  that (exponents, \<open>inf\<close>, \<open>nan\<close>, underscores) cannot be left of an amount token once
  \<open>$\<close>, blanks and commas are removed, and is treated here as not a number.
\<close>

definition digits_value :: "string \<Rightarrow> int" where
  "digits_value ds = foldl (\<lambda>a c. 10 * a + (of_char c - 48)) 0 ds"

definition py_float :: "string \<Rightarrow> real outcome" where
  "py_float s =
     (let t = strip s;
          (neg, u) = (case t of c # cs \<Rightarrow>
                        if c = CHR ''-'' then (True, cs)
                        else if c = CHR ''+'' then (False, cs) else (False, t)
                      | [] \<Rightarrow> (False, t));
          ip = takeWhile is_digit u;
          rest = dropWhile is_digit u;
          fp = (case rest of c # cs \<Rightarrow> if c = CHR ''.'' then cs else [] | [] \<Rightarrow> [])
      in if (rest = [] \<or> (hd rest = CHR ''.'' \<and> list_all is_digit fp)) \<and> (ip \<noteq> [] \<or> fp \<noteq> [])
         then let v = of_int (digits_value ip) + of_int (digits_value fp) / 10 ^ length fp
              in Returned (if neg then - v else v)
         else Raised)"

definition norm_amount :: "string option \<Rightarrow> real" where
  "norm_amount s = (case norm_amount_with py_float s of Returned v \<Rightarrow> v | Raised \<Rightarrow> 0)"

section \<open>Banorte: amounts of a movement\<close>

text \<open>\<open>_AMOUNT_RE\<close>, \<open>_AMT_CORE\<close> and \<open>_AMT_RUN_RE\<close>.\<close>

definition AMOUNT_RE :: rx where
  "AMOUNT_RE = seqs [opt (lit CHR ''$''), Star space, rep digit 1 3,
     Star (Seq (lit CHR '','') (times digit 3)), lit CHR ''.'', times digit 2]"

definition AMT_CORE :: rx where
  "AMT_CORE = Alt AMOUNT_RE
     (Seq (lit CHR ''0'') (opt (Seq (lit CHR ''.'') (rep (lit CHR ''0'') 1 2))))"

definition AMT_RUN_RE :: rx where
  "AMT_RUN_RE = Seq AMT_CORE (rep (Seq (Seq space (Star space)) AMT_CORE) 1 2)"

text \<open>\<open>_round2\<close>.\<close>

definition round2_opt :: "real option \<Rightarrow> real option" where
  "round2_opt x = map_option round2 x"

definition credit_words :: "string list" where
  "credit_words = [''SPEI RECIBIDO'', ''ABONO'', ''DEP'' @ [CHR 0xD3] @ ''SITO'', ''DEPOSITO'',
     ''INTERESES'', ''DEPOSITO DE CUENTA'', ''DE CUENTA DE TERCEROS (ABONO)'']"

definition debit_words :: "string list" where
  "debit_words = [''RETIRO'', ''PAGO'', ''COMPRA'', ''COMISION'', ''COMISI'' @ [CHR 0xD3] @ ''N'',
     ''TRASPASO'', ''IVA'', ''I.V.A'', ''PAGO TERCEROS'', ''TRASPASO A CUENTA DE TERCEROS'']"

text \<open>\<open>\bI\.?S\.?R\b\<close>\<close>

definition ISR_RE :: rx where
  "ISR_RE = seqs [Wordb, lit CHR ''I'', opt (lit CHR ''.''), lit CHR ''S'', opt (lit CHR ''.''),
     lit CHR ''R'', Wordb]"

definition credit_match :: "string \<Rightarrow> bool" where
  "credit_match desc_upper = list_ex (\<lambda>k. contains k desc_upper) credit_words"

definition debit_match :: "string \<Rightarrow> bool" where
  "debit_match desc_upper =
     (list_ex (\<lambda>k. contains k desc_upper) debit_words \<or> matches ISR_RE desc_upper)"

text \<open>\<open>_classify\<close> returns the pair (withdrawal, deposit).\<close>

definition classify :: "string \<Rightarrow> real \<Rightarrow> real \<times> real" where
  "classify desc_upper monto =
     (if monto = 0 then (0, 0)
      else if credit_match desc_upper then (0, monto)
      else if debit_match desc_upper then (monto, 0)
      else (0, monto))"

text \<open>\<open>max(runs, key=lambda x: x.end())\<close>: the first of the elements with the largest key.\<close>

definition max_by_end :: "nat \<times> nat \<Rightarrow> (nat \<times> nat) list \<Rightarrow> nat \<times> nat" where
  "max_by_end m ms = foldl (\<lambda>best x. if snd best < snd x then x else best) m ms"

definition extract_amount_run :: "string \<Rightarrow> string \<times> real list" where
  "extract_amount_run s0 =
     (let s = rstrip s0 in
      case finditer AMT_RUN_RE s of
        r # runs \<Rightarrow>
          let m = max_by_end r runs;
              tokens = findall AMT_CORE (group0 s m);
              desc = rstrip (slice s 0 (fst m) @ drop (snd m) s)
          in (desc, map (\<lambda>t. norm_amount (Some t)) tokens)
      | [] \<Rightarrow>
          (case finditer AMT_CORE s of
             [] \<Rightarrow> (s, [])
           | x # xs \<Rightarrow>
               let m = last (x # xs);
                   desc = rstrip (slice s 0 (fst m) @ drop (snd m) s)
               in (desc, [norm_amount (Some (group0 s m))])))"

text \<open>
  The part of \<open>_parse_section_to_rows\<close> that turns the text after the date of one
  movement into the amounts and the description of the row it appends.
\<close>

record movement =
  description :: string
  deposit :: real
  withdrawal :: real
  balance :: "real option"

definition movement_of_body :: "string \<Rightarrow> movement" where
  "movement_of_body body =
     (let (body_clean, tail) = extract_amount_run body;
          (dep, ret, bal) =
            (if length tail = 3 then (tail ! 0, tail ! 1, Some (tail ! 2))
             else if length tail = 2 then
               (let (w, d) = classify (upper body_clean) (tail ! 0) in (d, w, Some (tail ! 1)))
             else if length tail = 1 then (0, 0, Some (tail ! 0))
             else (0, 0, None))
      in \<lparr> description = strip (collapse_ws body_clean),
           deposit = round2 dep, withdrawal = round2 ret, balance = round2_opt bal \<rparr>)"

section \<open>Santander: keyword classification and reconciliation\<close>

text \<open>\<open>_norm_u\<close>: upper case, accents removed, white space compacted.\<close>

definition unaccent_char :: "char \<Rightarrow> char" where
  "unaccent_char c =
     (if c = CHR 0xC1 then CHR ''A'' else if c = CHR 0xC9 then CHR ''E''
      else if c = CHR 0xCD then CHR ''I'' else if c = CHR 0xD3 then CHR ''O''
      else if c = CHR 0xDA then CHR ''U'' else if c = CHR 0xDC then CHR ''U''
      else if c = CHR 0xD1 then CHR ''N'' else c)"

definition norm_u :: "string \<Rightarrow> string" where
  "norm_u s = (if s = [] then []
     else strip (collapse_ws (map unaccent_char (upper s))))"

text \<open>\<open>re.sub(r"[^A-Z0-9]", "", u)\<close>.\<close>

definition compact :: "string \<Rightarrow> string" where
  "compact u = filter (\<lambda>c. is_upper_az c \<or> is_digit c) u"

definition has_tokens :: "string \<Rightarrow> string list \<Rightarrow> bool" where
  "has_tokens desc tokens =
     (let u0 = norm_u desc; u1 = compact u0 in
      list_ex (\<lambda>t. let t0 = norm_u t; t1 = compact t0 in
                 contains t0 u0 \<or> contains t1 u1) tokens)"

definition ABONO_KEYS :: "string list" where
  "ABONO_KEYS = [''ABONO'', ''ABO '', ''DEPOSITO'', ''RECIBIDO'', ''SPEI RECIBIDO'',
     ''INTERES'', ''INTERESES'', ''DEVOLUCION'', ''REEMBOLSO'', ''TRASPASO RECIBIDO'']"

definition RETIRO_KEYS :: "string list" where
  "RETIRO_KEYS = [''RETIRO'', ''PAGO'', ''ENVIADO'', ''TRANSFERENCIA SPEI'', ''SPEI HORA'',
     ''SPEI ENVIADO'', ''COMISION'', ''IVA'', ''COMPRA'', ''COBRO'',
     ''RETENCION'', ''ISR'', ''MEMBRESIA'', ''MEMBRES'', ''CARGO'', ''CUOTA'', ''ANUALIDAD'',
     ''SEGURO'', ''SERVICIO'', ''MANTENIMIENTO'',
     ''APORT'', ''LINEA CAPTURA'', ''CAPTURA INTERNET'']"

text \<open>\<open>_classify_by_keywords\<close> returns the pair (retiro, deposito).\<close>

definition classify_by_keywords :: "string \<Rightarrow> real \<Rightarrow> real \<times> real" where
  "classify_by_keywords desc_upper monto =
     (if monto = 0 then (0, 0)
      else if has_tokens desc_upper ABONO_KEYS then (0, monto)
      else if has_tokens desc_upper RETIRO_KEYS then (monto, 0)
      else (0, monto))"

text \<open>\<open>_reconcile_amounts\<close> returns the pair (deposito, retiro).\<close>

definition reconcile_amounts :: "string \<Rightarrow> real \<Rightarrow> real \<Rightarrow> real \<times> real" where
  "reconcile_amounts desc dep ret =
     (let has_abono = has_tokens desc ABONO_KEYS;
          has_retiro = has_tokens desc RETIRO_KEYS;
          (dep1, ret1) =
            (if dep > 0 \<and> ret > 0 then
               (if has_abono \<and> \<not> has_retiro then (dep, 0)
                else if has_retiro \<and> \<not> has_abono then (0, ret)
                else (0, ret))
             else if dep > 0 \<and> ret = 0 \<and> has_retiro \<and> \<not> has_abono then (0, dep)
             else if ret > 0 \<and> dep = 0 \<and> has_abono \<and> \<not> has_retiro then (ret, 0)
             else (dep, ret))
      in (round2 dep1, round2 ret1))"

section \<open>Page geometry: columns and rows\<close>

text \<open>A word as \<open>extract_words\<close> delivers it: its text and its bounding box.\<close>

record pword =
  w_text :: string
  x0 :: real
  x1 :: real
  w_top :: real
  w_bottom :: real

text \<open>
  \<open>_detect_columns\<close>. \<open>hits opts words\<close> is \<open>hits[key]\<close> for the label whose spellings
  are \<open>opts\<close>; the key is in the dictionary when the list is not empty.
  \<open>min(..., key=top)\<close> takes the first of the topmost words.
\<close>

definition hits :: "string list \<Rightarrow> pword list \<Rightarrow> pword list" where
  "hits opts words = filter (\<lambda>w. list_ex (\<lambda>o'. contains o' (upper (w_text w))) opts) words"

definition min_by_top :: "pword \<Rightarrow> pword list \<Rightarrow> pword" where
  "min_by_top h hs = foldl (\<lambda>best w. if w_top w < w_top best then w else best) h hs"

definition cx :: "pword list \<Rightarrow> real \<Rightarrow> string list \<Rightarrow> real \<Rightarrow> real" where
  "cx words page_width opts default_frac =
     (case hits opts words of
        [] \<Rightarrow> page_width * default_frac
      | h # hs \<Rightarrow> (let w = min_by_top h hs in (x0 w + x1 w) / 2))"

definition mid :: "real \<Rightarrow> real \<Rightarrow> real" where
  "mid a b = (a + b) / 2"

definition header_y_of :: "string list list \<Rightarrow> pword list \<Rightarrow> real" where
  "header_y_of labels words =
     (case concat (map (\<lambda>opts. case hits opts words of [] \<Rightarrow> []
                                | h # hs \<Rightarrow> [w_bottom (min_by_top h hs)]) labels) of
        [] \<Rightarrow> 0
      | b # bs \<Rightarrow> foldl max b bs)"

definition santander_labels :: "string list list" where
  "santander_labels = [[''FECHA''], [''FOLIO''],
     [''DESCRIPCION'', ''DESCRIPCI'' @ [CHR 0xD3] @ ''N''],
     [''DEPOSITO'', ''DEP'' @ [CHR 0xD3] @ ''SITO''], [''RETIRO''], [''SALDO'']]"

definition santander_anchors :: "pword list \<Rightarrow> real \<Rightarrow> real list" where
  "santander_anchors words page_width =
     (let x_fecha = cx words page_width (santander_labels ! 0) 0.07;
          x_folio = cx words page_width (santander_labels ! 1) 0.16;
          x_desc = cx words page_width (santander_labels ! 2) 0.40;
          x_dep = cx words page_width (santander_labels ! 3) 0.62;
          x_ret = cx words page_width (santander_labels ! 4) 0.74;
          x_saldo = cx words page_width (santander_labels ! 5) 0.88
      in sort [x_fecha, x_folio, x_desc, x_dep, x_ret, x_saldo])"

definition bounds6 :: "real list \<Rightarrow> real \<Rightarrow> (real \<times> real) list" where
  "bounds6 xs page_width = [
     (0, mid (xs ! 0) (xs ! 1) - 1),
     (mid (xs ! 0) (xs ! 1) + 1, mid (xs ! 1) (xs ! 2) - 1),
     (mid (xs ! 1) (xs ! 2) + 1, mid (xs ! 2) (xs ! 3) - 1),
     (mid (xs ! 2) (xs ! 3) + 1, mid (xs ! 3) (xs ! 4) - 1),
     (mid (xs ! 3) (xs ! 4) + 1, mid (xs ! 4) (xs ! 5) - 1),
     (mid (xs ! 4) (xs ! 5) + 1, page_width)]"

definition santander_detect_columns :: "pword list \<Rightarrow> real \<Rightarrow> (real \<times> real) list \<times> real" where
  "santander_detect_columns words page_width =
     (let xs = santander_anchors words page_width;
          bounds = bounds6 xs page_width
      in (bounds, header_y_of santander_labels words))"

text \<open>The BBVA labels, in the order CARGOS, ABONOS, OPERACION, LIQUIDACION, CODDESC,
  REFERENCIA, OPER, LIQ of the source's dictionary.\<close>

definition bbva_labels :: "string list list" where
  "bbva_labels = [[''CARGOS''], [''ABONOS''],
     [''OPERACI'' @ [CHR 0xD3] @ ''N'', ''OPERACION''],
     [''LIQUIDACI'' @ [CHR 0xD3] @ ''N'', ''LIQUIDACION''],
     [''COD.'', ''DESCRIPCI'' @ [CHR 0xD3] @ ''N'', ''DESCRIPCION''],
     [''REFERENCIA''], [''OPER''], [''LIQ'']]"

definition bbva_anchors :: "pword list \<Rightarrow> real \<Rightarrow> real list" where
  "bbva_anchors words page_width =
     (let x_oper = cx words page_width (bbva_labels ! 6) 0.08;
          x_liq = cx words page_width (bbva_labels ! 7) 0.13;
          x_desc = cx words page_width (bbva_labels ! 4) 0.33;
          x_ref = cx words page_width (bbva_labels ! 5) 0.51;
          x_car = cx words page_width (bbva_labels ! 0) 0.70;
          x_abo = cx words page_width (bbva_labels ! 1) 0.78;
          x_sop = cx words page_width (bbva_labels ! 2) 0.86;
          x_sliq = cx words page_width (bbva_labels ! 3) 0.94
      in sort [x_oper, x_liq, x_desc, x_ref, x_car, x_abo, x_sop, x_sliq])"

definition bounds8 :: "real list \<Rightarrow> real \<Rightarrow> (real \<times> real) list" where
  "bounds8 xs page_width = [
     (0, mid (xs ! 0) (xs ! 1) - 1),
     (mid (xs ! 0) (xs ! 1) + 1, mid (xs ! 1) (xs ! 2) - 1),
     (mid (xs ! 1) (xs ! 2) + 1, mid (xs ! 2) (xs ! 3) - 1),
     (mid (xs ! 2) (xs ! 3) + 1, mid (xs ! 3) (xs ! 4) - 1),
     (mid (xs ! 3) (xs ! 4) + 1, mid (xs ! 4) (xs ! 5) - 1),
     (mid (xs ! 4) (xs ! 5) + 1, mid (xs ! 5) (xs ! 6) - 1),
     (mid (xs ! 5) (xs ! 6) + 1, mid (xs ! 6) (xs ! 7) - 1),
     (mid (xs ! 6) (xs ! 7) + 1, page_width)]"

definition bbva_detect_columns :: "pword list \<Rightarrow> real \<Rightarrow> (real \<times> real) list \<times> real" where
  "bbva_detect_columns words page_width =
     (let xs = bbva_anchors words page_width;
          bounds = bounds8 xs page_width
      in (bounds, header_y_of bbva_labels words))"

text \<open>
  The midpoints between neighbouring anchors, and the bands with a margin of one unit on
  each side of every midpoint, from the left edge \<open>l\<close> to the right edge \<open>r\<close>.
\<close>

fun mids :: "real list \<Rightarrow> real list" where
  "mids (a # b # xs) = mid a b # mids (b # xs)"
| "mids xs = []"

fun bands :: "real \<Rightarrow> real list \<Rightarrow> real \<Rightarrow> (real \<times> real) list" where
  "bands l [] r = [(l, r)]"
| "bands l (m # ms) r = (l, m - 1) # bands (m + 1) ms r"

text \<open>The bands that contain an x-centre, as \<open>_assign_cols\<close> tests them.\<close>

definition in_band :: "real \<Rightarrow> real \<times> real \<Rightarrow> bool" where
  "in_band xc b = (fst b \<le> xc \<and> xc \<le> snd b)"

text \<open>
  \<open>_group_rows\<close> (the same in the BBVA and Santander extractors). The dictionary
  \<open>rows\<close> is a list of (key, words) in insertion order.
\<close>

fun setdefault_append :: "(int \<times> 'a list) list \<Rightarrow> int \<Rightarrow> 'a \<Rightarrow> (int \<times> 'a list) list" where
  "setdefault_append [] k v = [(k, [v])]"
| "setdefault_append ((k', vs) # m) k v =
     (if k' = k then (k', vs @ [v]) # m else (k', vs) # setdefault_append m k v)"

definition ybin_of :: "pword list \<Rightarrow> real" where
  "ybin_of body =
     (let heights = map (\<lambda>w. w_bottom w - w_top w) body;
          avg_h = (if heights \<noteq> [] then sum_list heights / real (length heights) else 8)
      in max 2 (min 4.2 (avg_h * 0.70)))"

definition group_rows :: "pword list \<Rightarrow> real \<Rightarrow> pword list list" where
  "group_rows words header_y =
     (let body = filter (\<lambda>w. header_y + 1 < w_top w) words in
      if body = [] then []
      else
        let ybin = ybin_of body;
            rows = foldl (\<lambda>m w. setdefault_append m (py_round (w_top w / ybin)) w) [] body
        in map (\<lambda>k. sort_key x0 (case map_of rows k of Some ws \<Rightarrow> ws | None \<Rightarrow> []))
               (sort (map fst rows)))"

text \<open>
  Row grouping as the specification words it: average height of the body tokens, bin size
  0.70 times the average clamped to [2.0, 4.2], one bucket per value of
  \<open>round(top / bin)\<close>, each bucket sorted from left to right, buckets in increasing order.
\<close>

definition group_rows_spec :: "pword list \<Rightarrow> real \<Rightarrow> pword list list" where
  "group_rows_spec words header_y =
     (let body = filter (\<lambda>w. header_y + 1 < w_top w) words;
          avg_h = sum_list (map (\<lambda>w. w_bottom w - w_top w) body) / real (length body);
          bin = max 2 (min 4.2 (0.70 * avg_h));
          bucket = (\<lambda>w. py_round (w_top w / bin))
      in map (\<lambda>k. sort_key x0 (filter (\<lambda>w. bucket w = k) body))
             (sorted_list_of_set (bucket ` set body)))"

text \<open>\<open>_assign_cols\<close> for \<open>n\<close> columns (6 for Santander, 8 for BBVA).\<close>

fun find_band :: "(real \<times> real) list \<Rightarrow> real \<Rightarrow> nat \<Rightarrow> nat option" where
  "find_band [] xc i = None"
| "find_band (b # bs) xc i = (if in_band xc b then Some i else find_band bs xc (Suc i))"

definition assign_cols :: "nat \<Rightarrow> pword list \<Rightarrow> (real \<times> real) list \<Rightarrow> string list" where
  "assign_cols n row_words bounds =
     map strip
       (foldl (\<lambda>cols w.
            case find_band bounds ((x0 w + x1 w) / 2) 0 of
              None \<Rightarrow> cols
            | Some i \<Rightarrow>
                cols[i := (if cols ! i \<noteq> [] then strip (cols ! i @ '' '' @ w_text w)
                           else w_text w)])
          (replicate n []) row_words)"

section \<open>Dates\<close>

text \<open>\<open>datetime.date(y, m, d)\<close> raises \<open>ValueError\<close> unless the day exists.\<close>

type_synonym date = "int \<times> int \<times> int"

definition days_in_month :: "int \<Rightarrow> int \<Rightarrow> int" where
  "days_in_month y m =
     (if m = 2 then (if y mod 4 = 0 \<and> (y mod 100 \<noteq> 0 \<or> y mod 400 = 0) then 29 else 28)
      else if m = 4 \<or> m = 6 \<or> m = 9 \<or> m = 11 then 30 else 31)"

definition py_date :: "int \<Rightarrow> int \<Rightarrow> int \<Rightarrow> date outcome" where
  "py_date y m d =
     (if 1 \<le> y \<and> y \<le> 9999 \<and> 1 \<le> m \<and> m \<le> 12 \<and> 1 \<le> d \<and> d \<le> days_in_month y m
      then Returned (y, m, d) else Raised)"

definition MES_ABREV :: "string \<Rightarrow> int option" where
  "MES_ABREV = map_of [(''ene'', 1), (''feb'', 2), (''mar'', 3), (''abr'', 4), (''may'', 5),
     (''jun'', 6), (''jul'', 7), (''ago'', 8), (''sep'', 9), (''set'', 9), (''oct'', 10),
     (''nov'', 11), (''dic'', 12)]"

definition lower_char :: "char \<Rightarrow> char" where
  "lower_char c = (let n = (of_char c :: int) in
     if (65 \<le> n \<and> n \<le> 90) \<or> (192 \<le> n \<and> n \<le> 222 \<and> n \<noteq> 215)
     then char_of (n + 32) else c)"

definition lower :: "string \<Rightarrow> string" where
  "lower s = map lower_char s"

definition is_letter_az :: "char \<Rightarrow> bool" where
  "is_letter_az c = (let n = (of_char c :: int) in
     (65 \<le> n \<and> n \<le> 90) \<or> (97 \<le> n \<and> n \<le> 122))"

text \<open>The class \<open>[A-Za-z\<acute>A\<acute>a]\<close> of the month letters, \<open>\s+\<close> and \<open>\s*\<close>.\<close>

definition month_letter :: rx where
  "month_letter = Atom (\<lambda>c. is_letter_az c \<or> c = CHR 0xC1 \<or> c = CHR 0xE1)"

definition ws1 :: rx where
  "ws1 = Seq space (Star space)"

definition ws0 :: rx where
  "ws0 = Star space"

text \<open>A set of characters under \<open>(?i)\<close>, and a phrase whose words are separated by \<open>\s+\<close>.\<close>

definition ione_of :: "string \<Rightarrow> rx" where
  "ione_of cs = Atom (\<lambda>x. upper_char x \<in> set (map upper_char cs))"

fun iphrase :: "string list \<Rightarrow> rx" where
  "iphrase [] = Eps"
| "iphrase [w] = ilits w"
| "iphrase (w # ws) = Seq (ilits w) (Seq ws1 (iphrase ws))"

definition join :: "string list \<Rightarrow> string" where
  "join ws = (case ws of [] \<Rightarrow> [] | w # rest \<Rightarrow> foldl (\<lambda>a b. a @ '' '' @ b) w rest)"

section \<open>Santander: the movements of a statement\<close>

definition TOTAL_PAT :: rx where
  "TOTAL_PAT = seqs [Wordb, ilits ''TOTAL'', Wordb]"

definition SALDO_FINAL_PAT :: rx where
  "SALDO_FINAL_PAT = iphrase [''SALDO'', ''FINAL'', ''DEL'', ''PERIODO'']"

definition has_total_or_final :: "string \<Rightarrow> bool" where
  "has_total_or_final s = (matches TOTAL_PAT s \<or> matches SALDO_FINAL_PAT s)"

text \<open>\<open>(\d{2})\s*-\s*([A-Za-z..]{3})\s*-\s*(\d{4})\<close>\<close>

definition DATE_TOKEN_SANT :: rx where
  "DATE_TOKEN_SANT = seqs [times digit 2, ws0, lit CHR ''-'', ws0, times month_letter 3,
     ws0, lit CHR ''-'', ws0, times digit 4]"

definition BANCOINVEX_TAG_RE :: rx where
  "BANCOINVEX_TAG_RE = seqs [ilits ''BANCO'', ws0, ilits ''INVEX'']"

text \<open>\<open>\b0(?:,\d{3}){2,}\.\d{2}\b\<close>\<close>

definition BANCOINVEX_FAKE_AMT_RE :: rx where
  "BANCOINVEX_FAKE_AMT_RE = seqs [Wordb, lit CHR ''0'',
     at_least (Seq (lit CHR '','') (times digit 3)) 2, lit CHR ''.'', times digit 2, Wordb]"

definition CLAVE_RASTREO_PAT :: rx where
  "CLAVE_RASTREO_PAT = seqs [Wordb, iphrase [''CLAVE'', ''DE'', ''RASTREO''], Wordb]"

definition INFO_FISCAL_PAT :: rx where
  "INFO_FISCAL_PAT = seqs [Wordb,
     alts [ilits ''UUID'', ilits ''CFDI'', Seq (ilits ''TIMBRAD'') (ione_of ''OA''),
       ilits ''COMPROBANTE'', iphrase [''SELLO'', ''DIGITAL''], iphrase [''CADENA'', ''ORIGINAL''],
       ilits ''SAT'', seqs [ilits ''REG'', ione_of [CHR ''I'', CHR 0xCD], ilits ''MEN''],
       ilits ''EMISOR'', ilits ''RECEPTOR'', iphrase [''USO'', ''CFDI''],
       iphrase [''FOLIO'', ''INTERNO''], iphrase [''FORMA'', ''DE'', ''PAGO''],
       seqs [ilits ''M'', ione_of [CHR ''E'', CHR 0xC9], ilits ''TODO'', ws1,
             iphrase [''DE'', ''PAGO'']],
       iphrase [''FECHA'', ''Y'', ''HORA'', ''DE''],
       seqs [ilits ''CERTIFICACI'', ione_of [CHR 0xD3, CHR ''O''], ilits ''N''],
       ilits ''CSD'', ilits ''COMPLEMENTO''],
     Wordb]"

text \<open>\<open>[A-Za-z0-9+/=]{20,}\<close>\<close>

definition BASE64ISH_PAT :: rx where
  "BASE64ISH_PAT =
     at_least (Atom (\<lambda>c. is_letter_az c \<or> is_digit c \<or> c \<in> set ''+/='')) 20"

text \<open>\<open>(?i)\bP[\W_]*GINA\s*\d+\s*DE\s*\d+\b\<close> and \<open>(?i)\bP-?P\.?\s*\d+\b\<close>\<close>

definition PAGINA_WORD_PAT :: rx where
  "PAGINA_WORD_PAT = seqs [Wordb, ilit CHR ''P'',
     Star (Atom (\<lambda>c. \<not> is_word c \<or> c = CHR ''_'')), ilits ''GINA'', ws0,
     Seq digit (Star digit), ws0, ilits ''DE'', ws0, Seq digit (Star digit), Wordb]"

definition PP_NUM_PAT :: rx where
  "PP_NUM_PAT = seqs [Wordb, ilit CHR ''P'', opt (lit CHR ''-''), ilit CHR ''P'',
     opt (lit CHR ''.''), ws0, Seq digit (Star digit), Wordb]"

definition DETALLES_HEADER_PAT :: rx where
  "DETALLES_HEADER_PAT = seqs [ilits ''Detalle'', opt (ilit CHR ''s''), ws1,
     iphrase [''de'', ''movimientos'']]"

text \<open>\<open>^\d{5,}\s+\<close>\<close>

definition LEADING_FOLIO_RE :: rx where
  "LEADING_FOLIO_RE = seqs [Bol, at_least digit 5, ws1]"

text \<open>\<open>_drop_footer_totals\<close>\<close>

definition drop_footer_totals :: "pword list \<Rightarrow> pword list" where
  "drop_footer_totals words =
     (let cut = filter (\<lambda>w. let t = upper (strip (replace_char nbsp '' '' (w_text w)))
                            in t = ''TOTAL'' \<or> contains ''SALDO FINAL DEL PERIODO'' t) words
      in case cut of
           [] \<Rightarrow> words
         | c # cs \<Rightarrow> (let y_cut = foldl (\<lambda>y w. min y (w_top w)) (w_top c) cs
                      in filter (\<lambda>w. w_top w < y_cut - 0.5) words))"

text \<open>\<open>_cut_after_totals\<close>\<close>

definition cut_after_totals :: "string \<Rightarrow> string" where
  "cut_after_totals s =
     (case (search TOTAL_PAT None s, search SALDO_FINAL_PAT None s) of
        (Some m1, Some m2) \<Rightarrow> rstrip (take (if fst m1 < fst m2 then fst m1 else fst m2) s)
      | (Some m1, None) \<Rightarrow> rstrip (take (fst m1) s)
      | (None, Some m2) \<Rightarrow> rstrip (take (fst m2) s)
      | (None, None) \<Rightarrow> s)"

text \<open>\<open>_is_garbage_piece\<close> and \<open>_strip_page_garbage\<close>\<close>

definition is_garbage_piece :: "string \<Rightarrow> bool" where
  "is_garbage_piece s =
     (if s = [] then True
      else if matches CLAVE_RASTREO_PAT s then False
      else if matches INFO_FISCAL_PAT s then True
      else if matches BASE64ISH_PAT s then True
      else False)"

definition strip_page_garbage :: "string \<Rightarrow> string" where
  "strip_page_garbage s =
     strip (collapse_ws (re_sub PP_NUM_PAT [] (re_sub PAGINA_WORD_PAT [] s)))"

text \<open>\<open>_pick_amount\<close>; \<open>prefer_first\<close> is \<open>prefer == "first"\<close>.\<close>

definition pick_amount :: "string \<Rightarrow> bool \<Rightarrow> real option" where
  "pick_amount s prefer_first =
     (if s = [] then None
      else let t = strip (replace_char nbsp '' '' s) in
        if t = ''0'' \<or> t = ''0.0'' \<or> t = ''0.00'' then Some 0
        else case findall AMOUNT_RE t of
               [] \<Rightarrow> None
             | m # ms \<Rightarrow> Some (norm_amount (Some (if prefer_first then m else last (m # ms)))))"

text \<open>\<open>_parse_ddmonyyyy\<close>: \<open>None\<close> when there is no date token or no such month; the
  constructor \<open>date\<close> may raise.\<close>

definition parse_ddmonyyyy :: "string \<Rightarrow> date option outcome" where
  "parse_ddmonyyyy token =
     (let u = upper (replace_char nbsp '' '' token) in
      case search DATE_TOKEN_SANT None u of
        None \<Rightarrow> Returned None
      | Some (n, len) \<Rightarrow>
          (let m = take len (drop n u);
               dd = digits_value (take 2 m);
               g2 = filter (\<lambda>c. \<not> is_digit c \<and> \<not> is_space c \<and> c \<noteq> CHR ''-'') m;
               yy = digits_value (drop (length m - 4) m)
           in case MES_ABREV (replace_char (CHR 0xE1) ''a'' (lower g2)) of
                None \<Rightarrow> Returned None
              | Some mon \<Rightarrow> (case py_date yy mon dd of
                               Raised \<Rightarrow> Raised
                             | Returned d \<Rightarrow> Returned (Some d))))"

text \<open>
  \<open>_extract_tail_run\<close>. \<open>grow_tail\<close> is the \<open>while\<close> loop: it walks the earlier matches
  from right to left (\<open>earlier\<close> is in that order) and appends to \<open>tail\<close> while only blanks
  separate them and fewer than \<open>maxn\<close> are taken.
\<close>

fun grow_tail ::
  "string \<Rightarrow> nat \<Rightarrow> (nat \<times> nat) list \<Rightarrow> (nat \<times> nat) list \<Rightarrow> nat \<Rightarrow> (nat \<times> nat) list \<times> nat" where
  "grow_tail s maxn [] tail cur_start = (tail, cur_start)"
| "grow_tail s maxn (m # earlier) tail cur_start =
     (if length tail < maxn then
        (if strip (slice s (snd m) cur_start) \<noteq> [] then (tail, cur_start)
         else grow_tail s maxn earlier (tail @ [m]) (fst m))
      else (tail, cur_start))"

definition is_fake_amount :: "string \<Rightarrow> bool" where
  "is_fake_amount tok =
     fullmatch BANCOINVEX_FAKE_AMT_RE (replace_char CHR '' '' [] (replace_char CHR ''$'' [] tok))"

definition tail_line :: "string \<Rightarrow> string" where
  "tail_line line = strip_page_garbage (rstrip (replace_char nbsp '' '' line))"

definition tail_candidates :: "string \<Rightarrow> (nat \<times> nat) list" where
  "tail_candidates s =
     (let ms = finditer AMOUNT_RE s in
      if matches BANCOINVEX_TAG_RE s
      then filter (\<lambda>m. \<not> is_fake_amount (group0 s m)) ms
      else ms)"

definition tail_matches :: "string \<Rightarrow> nat \<Rightarrow> (nat \<times> nat) list \<times> nat" where
  "tail_matches s maxn =
     (case rev (tail_candidates s) of
        [] \<Rightarrow> ([], length s)
      | l # earlier \<Rightarrow>
          (let (tail, cur_start) = grow_tail s maxn earlier [l] (fst l)
           in (rev tail, cur_start)))"

definition extract_tail_run :: "string \<Rightarrow> nat \<Rightarrow> string \<times> real list" where
  "extract_tail_run line maxn =
     (let s = tail_line line in
      if tail_candidates s = [] then (s, [])
      else let (tail, cur_start) = tail_matches s maxn
           in (rstrip (take cur_start s), map (\<lambda>m. norm_amount (Some (group0 s m))) tail))"

text \<open>\<open>pat.sub(repl, s, count=1)\<close>: only the first match is replaced.\<close>

definition re_sub1 :: "rx \<Rightarrow> string \<Rightarrow> string \<Rightarrow> string" where
  "re_sub1 r repl s =
     (case search r None s of
        None \<Rightarrow> s
      | Some (n, len) \<Rightarrow> take n s @ repl @ drop (n + len) s)"

text \<open>The open movement \<open>TxRow\<close> and the two ledgers of the Santander extractor.\<close>

datatype seccion = CUENTA | INVER

record stx =
  sx_f_oper :: "date option"
  sx_folio :: "string option"
  sx_desc :: string
  deposito :: real
  retiro :: real
  saldo :: "real option"

record sstate =
  movs_cheques :: "stx list"
  movs_inver :: "stx list"
  current :: "stx option"

text \<open>\<open>flush_current\<close>: the movement is reconciled and appended to its ledger.\<close>

definition flush_current :: "sstate \<Rightarrow> seccion \<Rightarrow> sstate" where
  "flush_current st sec =
     (case current st of
        None \<Rightarrow> st
      | Some cur \<Rightarrow>
          (let (d, r) = reconcile_amounts (sx_desc cur) (deposito cur) (retiro cur);
               cur' = cur\<lparr>deposito := d, retiro := r\<rparr>
           in if sec = CUENTA then st\<lparr>movs_cheques := movs_cheques st @ [cur']\<rparr>
              else st\<lparr>movs_inver := movs_inver st @ [cur']\<rparr>))"

definition row_text_of :: "pword list \<Rightarrow> string" where
  "row_text_of r = join (map w_text r)"

text \<open>\<open>_row_section_marker\<close>\<close>

definition row_section_marker :: "pword list \<Rightarrow> seccion option" where
  "row_section_marker row_words =
     (let t = upper (row_text_of row_words) in
      if (contains ''DETALLE'' t \<and> contains ''MOVIMIENTOS'' t \<and> contains ''CUENTA'' t
          \<and> (contains ''CHEQUE'' t \<or> contains ''CHEQUES'' t))
         \<or> contains ''CUENTA SANTANDER PYME'' t then Some CUENTA
      else if (contains ''DETALLE'' t \<and> contains ''MOVIMIENTOS'' t \<and> contains ''DINERO'' t
               \<and> contains ''CRECIENTE'' t)
              \<or> contains ''INVERSION CRECIENTE'' t then Some INVER
      else None)"

text \<open>
  The amounts that the text of a row gives (\<open>dep\<close>, \<open>ret\<close>, \<open>sal\<close>): a run of three is
  read as deposit, withdrawal and balance; in a run of two the first amount is classified
  by the keywords and the second is the balance; a single amount is the balance unless
  the row mentions a total.
\<close>

definition run_amounts ::
  "string \<Rightarrow> string \<Rightarrow> real list \<Rightarrow> real option \<times> real option \<times> real option" where
  "run_amounts row_text desc tail =
     (if length tail = 3 then (Some (tail ! 0), Some (tail ! 1), Some (tail ! 2))
      else if length tail = 2 then
        (let (wv, dv) = classify_by_keywords (upper desc) (tail ! 0)
         in (Some dv, Some wv, Some (tail ! 1)))
      else if length tail = 1 then
        (if has_total_or_final row_text then
           (let (wv, dv) = classify_by_keywords (upper desc) (tail ! 0)
            in (Some dv, Some wv, None))
         else (None, None, Some (tail ! 0)))
      else (None, None, None))"

text \<open>The amounts read from the columns, dropped when the run has two or more amounts
  or the row mentions a total.\<close>

definition col_amounts ::
  "string \<Rightarrow> real list \<Rightarrow> string \<Rightarrow> string \<Rightarrow> string
     \<Rightarrow> real option \<times> real option \<times> real option" where
  "col_amounts row_text tail dep_raw ret_raw saldo_raw =
     (if has_total_or_final row_text \<or> 2 \<le> length tail then (None, None, None)
      else (pick_amount dep_raw True, pick_amount ret_raw True, pick_amount saldo_raw False))"

definition or_else :: "'a option \<Rightarrow> 'a option \<Rightarrow> 'a option" where
  "or_else a b = (case a of Some v \<Rightarrow> Some v | None \<Rightarrow> b)"

definition or_zero :: "real option \<Rightarrow> real" where
  "or_zero a = (case a of Some v \<Rightarrow> v | None \<Rightarrow> 0)"

text \<open>The text of a dated row without its date, without what follows a totals marker and
  without a leading folio number.\<close>

definition line_wo_date_of :: "string \<Rightarrow> string" where
  "line_wo_date_of row_text =
     re_sub LEADING_FOLIO_RE []
       (cut_after_totals (strip (re_sub1 DATE_TOKEN_SANT [] row_text)))"

text \<open>A row that carries a date opens a movement.\<close>

definition open_movement :: "pword list \<Rightarrow> string list \<Rightarrow> stx outcome" where
  "open_movement r cols =
     (let fecha_raw = cols ! 0; folio_raw = cols ! 1; desc_raw = cols ! 2;
          dep_raw = cols ! 3; ret_raw = cols ! 4; saldo_raw = cols ! 5;
          row_text = row_text_of r
      in case parse_ddmonyyyy fecha_raw of
           Raised \<Rightarrow> Raised
         | Returned f \<Rightarrow>
             (let line_wo_date = line_wo_date_of row_text;
                  (desc_fb, tail) = extract_tail_run line_wo_date 3;
                  (dep_fb, ret_fb, sal_fb) = run_amounts row_text desc_fb tail;
                  (dep_col, ret_col, sal_col) =
                    col_amounts row_text tail dep_raw ret_raw saldo_raw;
                  desc0 = strip_page_garbage (strip (if desc_fb \<noteq> [] then desc_fb else desc_raw));
                  desc_txt = (if is_garbage_piece desc0 then [] else desc0);
                  dep_in = or_zero (or_else dep_col dep_fb);
                  ret_in = or_zero (or_else ret_col ret_fb);
                  (dep_v, ret_v) = reconcile_amounts desc_txt dep_in ret_in
              in Returned \<lparr> sx_f_oper = f,
                   sx_folio = (if strip folio_raw = [] then None else Some (strip folio_raw)),
                   sx_desc = desc_txt, deposito = dep_v, retiro = ret_v,
                   saldo = or_else sal_col sal_fb \<rparr>))"

text \<open>A row without date and without money continues the description.\<close>

definition continue_text :: "stx \<Rightarrow> pword list \<Rightarrow> string list \<Rightarrow> stx" where
  "continue_text cur r cols =
     (let piece_col = strip (cols ! 2);
          line = cut_after_totals (re_sub LEADING_FOLIO_RE [] (strip (row_text_of r)));
          piece_fb = fst (extract_tail_run line 3);
          piece = strip_page_garbage
                    (if length piece_col < length piece_fb then piece_fb else piece_col)
      in if piece \<noteq> [] \<and> \<not> is_garbage_piece piece
         then cur\<lparr>sx_desc := strip (sx_desc cur @ '' '' @ piece)\<rparr>
         else cur)"

text \<open>A row without date and with money completes the amounts of the open movement.\<close>

definition continue_amounts :: "stx \<Rightarrow> pword list \<Rightarrow> string list \<Rightarrow> stx" where
  "continue_amounts cur r cols =
     (let desc_raw = cols ! 2; dep_raw = cols ! 3; ret_raw = cols ! 4; saldo_raw = cols ! 5;
          row_text = row_text_of r;
          (desc_fb, tail) = extract_tail_run (cut_after_totals row_text) 3;
          (dep_v, ret_v, sal_v) =
            run_amounts row_text (if desc_fb \<noteq> [] then desc_fb else sx_desc cur) tail;
          (dep_col, ret_col, sal_col) = col_amounts row_text tail dep_raw ret_raw saldo_raw;
          dep1 = (case or_else dep_col dep_v of Some v \<Rightarrow> v | None \<Rightarrow> deposito cur);
          ret1 = (case or_else ret_col ret_v of Some v \<Rightarrow> v | None \<Rightarrow> retiro cur);
          sal1 = (case or_else sal_col sal_v of Some v \<Rightarrow> Some v | None \<Rightarrow> saldo cur);
          (dep2, ret2) = reconcile_amounts (sx_desc cur) dep1 ret1;
          piece = strip_page_garbage (strip (if desc_fb \<noteq> [] then desc_fb else desc_raw));
          desc1 = (if piece \<noteq> [] \<and> \<not> is_garbage_piece piece
                   then strip (sx_desc cur @ '' '' @ piece) else sx_desc cur)
      in cur\<lparr>deposito := dep2, retiro := ret2, saldo := sal1, sx_desc := desc1\<rparr>)"

text \<open>The rows that the loop skips: table header, totals, section title, page number.\<close>

definition skipped_row :: "string \<Rightarrow> bool" where
  "skipped_row row_up =
     ((contains ''FECHA'' row_up \<and> contains ''FOLIO'' row_up \<and> contains ''SALDO'' row_up)
      \<or> prefix ''TOTAL'' (strip row_up)
      \<or> contains ''SALDO FINAL DEL PERIODO'' row_up
      \<or> matches DETALLES_HEADER_PAT row_up
      \<or> matches PAGINA_WORD_PAT row_up \<or> matches PP_NUM_PAT row_up)"

text \<open>One turn of the loop over the rows of a page: the ledgers, the open movement and
  the active section after the row.\<close>

definition santander_row ::
  "(real \<times> real) list \<Rightarrow> sstate \<times> seccion \<Rightarrow> pword list \<Rightarrow> (sstate \<times> seccion) outcome" where
  "santander_row bounds sti r =
     (let st = fst sti; in_section = snd sti in
      case row_section_marker r of
        Some sec \<Rightarrow> Returned ((flush_current st in_section)\<lparr>current := None\<rparr>, sec)
      | None \<Rightarrow>
          (let cols = assign_cols 6 r bounds;
               fecha_raw = cols ! 0; folio_raw = cols ! 1; desc_raw = cols ! 2;
               dep_raw = cols ! 3; ret_raw = cols ! 4; saldo_raw = cols ! 5
           in if skipped_row (upper (row_text_of r)) then Returned (st, in_section)
              else
                let new_date = matches DATE_TOKEN_SANT fecha_raw;
                    has_money = (matches AMOUNT_RE dep_raw \<or> matches AMOUNT_RE ret_raw
                                 \<or> matches AMOUNT_RE saldo_raw)
                in if new_date then
                     (case open_movement r cols of
                        Raised \<Rightarrow> Raised
                      | Returned tx \<Rightarrow>
                          Returned ((flush_current st in_section)\<lparr>current := Some tx\<rparr>,
                                    in_section))
                   else
                     (case current st of
                        None \<Rightarrow> Returned (st, in_section)
                      | Some cur \<Rightarrow>
                          if \<not> has_money \<and> (desc_raw \<noteq> [] \<or> folio_raw \<noteq> [] \<or> fecha_raw \<noteq> [])
                          then Returned (st\<lparr>current := Some (continue_text cur r cols)\<rparr>,
                                         in_section)
                          else if has_money
                          then Returned (st\<lparr>current := Some (continue_amounts cur r cols)\<rparr>,
                                         in_section)
                          else Returned (st, in_section))))"

fun santander_rows ::
  "(real \<times> real) list \<Rightarrow> sstate \<times> seccion \<Rightarrow> pword list list \<Rightarrow> (sstate \<times> seccion) outcome" where
  "santander_rows bounds sti [] = Returned sti"
| "santander_rows bounds sti (r # rs) =
     (case santander_row bounds sti r of
        Raised \<Rightarrow> Raised
      | Returned sti' \<Rightarrow> santander_rows bounds sti' rs)"

text \<open>A page: its words and its width.\<close>

record page =
  page_words :: "pword list"
  page_width :: real
  page_text :: string

text \<open>
  One turn of the loop over the pages. The section of a page is that of its first
  header row, \<open>CUENTA\<close> without one. When the rows are done the open movement is flushed
  and \<open>current\<close> is cleared: nothing is carried to the next page.
\<close>

definition santander_page :: "sstate \<Rightarrow> page \<Rightarrow> sstate outcome" where
  "santander_page st pg =
     (let words = drop_footer_totals (page_words pg);
          (bounds, header_y) = santander_detect_columns words (page_width pg);
          rows = group_rows words header_y;
          in_section = (case List.map_filter row_section_marker rows of
                          [] \<Rightarrow> CUENTA | sec # _ \<Rightarrow> sec)
      in case santander_rows bounds (st, in_section) rows of
           Raised \<Rightarrow> Raised
         | Returned (st', sec') \<Rightarrow> Returned ((flush_current st' sec')\<lparr>current := None\<rparr>))"

fun santander_pages :: "sstate \<Rightarrow> page list \<Rightarrow> sstate outcome" where
  "santander_pages st [] = Returned st"
| "santander_pages st (pg # pgs) =
     (case santander_page st pg of
        Raised \<Rightarrow> Raised
      | Returned st' \<Rightarrow> santander_pages st' pgs)"

text \<open>The movements of a statement: the two ledgers when the loop over the pages ends.\<close>

definition santander_movements :: "page list \<Rightarrow> (stx list \<times> stx list) outcome" where
  "santander_movements pgs =
     (case santander_pages \<lparr>movs_cheques = [], movs_inver = [], current = None\<rparr> pgs of
        Raised \<Rightarrow> Raised
      | Returned st \<Rightarrow> Returned (movs_cheques st, movs_inver st))"

section \<open>BBVA: the movements of a statement\<close>

text \<open>
  The patterns of the BBVA extractor. Characters outside Latin-1 that some of them name
  (the en and em dashes of \<open>DASH_ROW_PAT\<close>) cannot occur in the texts modelled here.
\<close>

definition e_acc :: rx where
  "e_acc = ione_of [CHR ''e'', CHR 0xE9]"

definition a_acc :: rx where
  "a_acc = ione_of [CHR ''a'', CHR 0xE1]"

definition o_acc :: rx where
  "o_acc = ione_of [CHR ''o'', CHR 0xF3]"

definition u_acc :: rx where
  "u_acc = ione_of [CHR ''u'', CHR 0xFA]"

definition mexico :: rx where
  "mexico = seqs [ilit CHR ''m'', e_acc, ilits ''xico'']"

definition institucion :: rx where
  "institucion = seqs [ilits ''instituci'', o_acc, ilit CHR ''n'']"

definition multiple :: rx where
  "multiple = seqs [ilit CHR ''m'', u_acc, ilits ''ltiple'']"

definition dot_opt :: rx where
  "dot_opt = opt (lit CHR ''.'')"

definition any_but_newline :: rx where
  "any_but_newline = Atom (\<lambda>c. c \<noteq> CHR 0x0A)"

definition any_char :: rx where
  "any_char = Atom (\<lambda>c. True)"

text \<open>\<open>(\d{2})[\/\-\s]([A-Za-z..]{3})\<close>\<close>

definition DATE_TOKEN_SIMPLE :: rx where
  "DATE_TOKEN_SIMPLE = seqs [times digit 2, Atom (\<lambda>c. c = CHR ''/'' \<or> c = CHR ''-'' \<or> is_space c),
     times month_letter 3]"

definition SKIP_PAGE_PAT :: rx where
  "SKIP_PAGE_PAT = seqs [ilits ''cuadro'', ws1, ilits ''resumen'', ws1, ilits ''y'', ws1,
     ilits ''gr'', a_acc, ilits ''fico'', ws1,
     iphrase [''de'', ''movimientos'', ''del'', ''periodo'']]"

definition NOTICE_PAT :: rx where
  "NOTICE_PAT = alts [
     seqs [ilits ''estimad'', ione_of ''oa'', ws1, ilits ''cliente''],
     iphrase [''estado'', ''de'', ''cuenta'', ''ha'', ''sido'', ''modificado''],
     seqs [iphrase [''ahora'', ''tiene''], ws1, ilit CHR ''m'', a_acc, ilit CHR ''s'', ws1,
           ilits ''detalle''],
     iphrase [''contrato'', ''ha'', ''sido'', ''modificado''],
     iphrase [''cualquier'', ''sucursal''],
     ilits ''www.bbva.mx'',
     iphrase [''con'', ''bbva'', ''adelante'']]"

definition FOOTER_PAT :: rx where
  "FOOTER_PAT = alts [
     seqs [ilits ''bbva'', ws1, mexico,
           Seq (Atom (\<lambda>c. c = CHR '','' \<or> c = CHR ''.'' \<or> is_space c))
               (Star (Atom (\<lambda>c. c = CHR '','' \<or> c = CHR ''.'' \<or> is_space c))),
           ilit CHR ''s'', dot_opt, ilit CHR ''a'', dot_opt, opt (lit CHR '',''), ws0,
           institucion, ws1, ilits ''de'', ws1, ilits ''banca'', ws1, multiple,
           Lazy any_but_newline,
           iphrase [''grupo'', ''financiero'', ''bbva''], opt (Seq ws1 mexico)],
     seqs [ilits ''av'', dot_opt, ws0, iphrase [''paseo'', ''de'', ''la'', ''reforma''], ws0,
           lits ''510'', Lazy any_but_newline,
           alts [seqs [ilit CHR ''c'', dot_opt, ws0, ilit CHR ''p'', dot_opt, ws0, times digit 5],
                 seqs [iphrase [''ciudad'', ''de''], ws1, mexico],
                 mexico]],
     seqs [ilit CHR ''r'', dot_opt, ws0, ilit CHR ''f'', dot_opt, ws0, ilit CHR ''c'', dot_opt,
           ws0, ilits ''bba'', at_least (Atom (\<lambda>c. is_letter_az c \<or> is_digit c)) 6]]"

definition FOOTER_EXTRA_PAT :: rx where
  "FOOTER_EXTRA_PAT = seqs [ilits ''reforma'', ws0, lits ''510'', Lazy any_char,
     ilits ''ju'', a_acc, ilits ''rez'', Lazy any_char,
     ilits ''cuau'', opt (ilit CHR ''h''), ilit CHR ''t'', e_acc, ilits ''moc'', Lazy any_char,
     ilit CHR ''c'', dot_opt, ws0, ilit CHR ''p'', dot_opt, ws0, opt (lit CHR ''0''),
     lits ''6600'', Lazy any_char, ilits ''ciudad'']"

definition ORG_MID_PHRASE_PAT :: rx where
  "ORG_MID_PHRASE_PAT = seqs [Wordb,
     opt (seqs [ilit CHR ''S'', dot_opt, ws0, ilit CHR ''A'', dot_opt, opt (lit CHR '',''), ws0]),
     institucion, ws1, ilits ''DE'', ws1, ilits ''BANCA'', ws1, multiple, opt (lit CHR '',''),
     ws1, iphrase [''GRUPO'', ''FINANCIERO''], Wordb]"

text \<open>\<open>(?:[-_]{2,}\s*){6,}\<close>\<close>

definition DASH_ROW_PAT :: rx where
  "DASH_ROW_PAT = at_least (Seq (at_least (one_of ''-_'') 2) ws0) 6"

definition CROSS_SA_PAT :: rx where
  "CROSS_SA_PAT = seqs [Wordb, ilit CHR ''S'', dot_opt, ws0, ilit CHR ''A'', dot_opt,
     opt (one_of '',.''), Wordb]"

text \<open>\<open>[ ,;:\-]+$\<close>\<close>

definition DANGLING_RE :: rx where
  "DANGLING_RE = seqs [one_of '' ,;:-'', Star (one_of '' ,;:-''), Eol]"

definition HEADER_TOKENS :: "string list" where
  "HEADER_TOKENS = [''OPER'', ''LIQ'', ''CARGOS'', ''ABONOS'',
     ''OPERACI'' @ [CHR 0xD3] @ ''N'', ''OPERACION'', ''LIQUIDACI'' @ [CHR 0xD3] @ ''N'',
     ''LIQUIDACION'', ''SALDO'', ''FECHA'']"

text \<open>\<open>_strip_bbva_footer\<close> and \<open>_strip_crosspage_noise\<close>\<close>

definition tidy :: "string \<Rightarrow> string" where
  "tidy t = strip (re_sub DANGLING_RE [] (strip (collapse_ws t)))"

definition strip_bbva_footer :: "string \<Rightarrow> string" where
  "strip_bbva_footer text =
     (if text = [] then text
      else tidy (re_sub NOTICE_PAT '' '' (re_sub FOOTER_PAT '' ''
             (re_sub FOOTER_EXTRA_PAT '' '' (re_sub ORG_MID_PHRASE_PAT '' '' text)))))"

definition second_noise :: "rx list" where
  "second_noise = [
     seqs [Wordb, ilits ''cliente'', Wordb],
     seqs [Wordb, ilits ''ahora'', Wordb],
     seqs [Wordb, ilits ''estimad'', ione_of ''oa'', Wordb],
     seqs [Wordb, ilits ''bbva'', ws1, mexico, opt (seqs [ws1, ilits ''de'', ws1, mexico]), Wordb],
     seqs [Wordb, ilits ''contrato'', Wordb],
     seqs [Wordb, iphrase [''cualquier'', ''adelante''], Wordb]]"

definition strip_crosspage_noise :: "string \<Rightarrow> bool \<Rightarrow> string" where
  "strip_crosspage_noise text is_second =
     (if text = [] then text
      else let t = re_sub CROSS_SA_PAT '' '' text;
               t' = (if is_second then foldl (\<lambda>t pat. re_sub pat '' '' t) t second_noise else t)
           in tidy t')"

text \<open>The open movement \<open>TxRow\<close> of the BBVA extractor.\<close>

record btx =
  f_oper :: "date option"
  f_liq :: "date option"
  desc :: string
  cargos :: real
  abonos :: real
  s_oper :: "real option"
  s_liq :: "real option"

definition debit_kw :: "string list" where
  "debit_kw = [''ENVIADO'', ''PAGO'', ''COMPRA'', ''RETIRO'', ''D'' @ [CHR 0xC9] @ ''BITO'',
     ''DEBITO'', ''COMISION'', ''COMISI'' @ [CHR 0xD3] @ ''N'', ''DOMICILI'', ''N06'', ''CARGO'',
     ''SPEI'']"

definition credit_kw :: "string list" where
  "credit_kw = [''ABONO'', ''DEP'' @ [CHR 0xD3] @ ''SITO'', ''DEPOSITO'',
     ''N'' @ [CHR 0xD3] @ ''MINA'', ''NOMINA'', ''RECIBIDO'', ''INTERESES A FAVOR'',
     ''DEVOLUCI'' @ [CHR 0xD3] @ ''N'', ''DEVOLUCION'']"

definition is_credit :: "string \<Rightarrow> bool" where
  "is_credit u = list_ex (\<lambda>k. contains k u) credit_kw"

definition is_debit :: "string \<Rightarrow> bool" where
  "is_debit u = list_ex (\<lambda>k. contains k u) debit_kw"

text \<open>\<open>_maybe_fix_amount_columns\<close>\<close>

definition saldos_of :: "btx \<Rightarrow> real list" where
  "saldos_of tx = List.map_filter (\<lambda>v. case v of Some x \<Rightarrow> if x \<noteq> 0 then Some x else None
                                          | None \<Rightarrow> None) [s_oper tx, s_liq tx]"

definition maybe_fix_amount_columns :: "btx \<Rightarrow> btx" where
  "maybe_fix_amount_columns tx =
     (let cargos_zero = (cargos tx = 0); abonos_zero = (abonos tx = 0);
          saldos = saldos_of tx
      in if cargos_zero \<and> abonos_zero \<and> length saldos = 1 then
           (let v = saldos ! 0; u = upper (desc tx);
                tx' = (if is_credit u \<and> \<not> is_debit u then tx\<lparr>abonos := v\<rparr>
                       else tx\<lparr>cargos := v\<rparr>)
            in tx'\<lparr>s_oper := None, s_liq := None\<rparr>)
         else tx)"

text \<open>\<open>_parse_ddmon\<close>\<close>

definition parse_ddmon :: "string \<Rightarrow> int \<Rightarrow> date option outcome" where
  "parse_ddmon token fallback_year =
     (let t = replace_char nbsp '' '' token in
      case search DATE_TOKEN_SIMPLE None t of
        None \<Rightarrow> Returned None
      | Some (n, len) \<Rightarrow>
          if fallback_year = 0 then Returned None
          else
            (let m = take len (drop n t);
                 d = digits_value (take 2 m);
                 g2 = drop 3 m
             in case MES_ABREV (replace_char (CHR 0xE1) ''a'' (lower g2)) of
                  None \<Rightarrow> Returned None
                | Some mon \<Rightarrow> (case py_date fallback_year mon d of
                                 Raised \<Rightarrow> Raised
                               | Returned dt \<Rightarrow> Returned (Some dt))))"

text \<open>The state of the loop over the pages.\<close>

record bstate =
  txs :: "btx list"
  current_tx :: "btx option"
  second_cross_active :: bool
  current_tx_index :: "nat option"
  hard_stop_after_this_page :: bool

text \<open>What a row does to the loop over the rows of a page: it goes on, or it breaks,
  and when it breaks the row was or was not the totals row.\<close>

datatype row_result = Goes_on bstate | Breaks bool

definition is_stop_row :: "string \<Rightarrow> bool" where
  "is_stop_row row_full_txt =
     (matches DASH_ROW_PAT row_full_txt
      \<or> (contains ''ESTIMADO'' (upper row_full_txt) \<and> contains ''CLIENTE'' (upper row_full_txt)))"

definition is_totals_row :: "string \<Rightarrow> bool" where
  "is_totals_row row_full_txt = contains ''TOTAL DE MOVIMIENTOS'' (upper row_full_txt)"

text \<open>Step 5 of the loop body: the amounts that the row has in its columns.\<close>

definition set_amounts :: "btx \<Rightarrow> string list \<Rightarrow> btx" where
  "set_amounts cur cols =
     maybe_fix_amount_columns
       (cur\<lparr>cargos := (if cols ! 4 \<noteq> [] then norm_amount (Some (cols ! 4)) else cargos cur),
            abonos := (if cols ! 5 \<noteq> [] then norm_amount (Some (cols ! 5)) else abonos cur),
            s_oper := (if cols ! 6 \<noteq> [] \<and> strip (cols ! 6) \<noteq> []
                       then Some (norm_amount (Some (cols ! 6))) else s_oper cur),
            s_liq := (if cols ! 7 \<noteq> [] \<and> strip (cols ! 7) \<noteq> []
                      then Some (norm_amount (Some (cols ! 7))) else s_liq cur)\<rparr>)"

definition desc_piece_of :: "bstate \<Rightarrow> pword list \<Rightarrow> string list \<Rightarrow> string" where
  "desc_piece_of st r cols =
     (let descr_raw = cols ! 2; ref_raw = cols ! 3;
          fallback_desc = strip (join (filter (\<lambda>txt. \<not> matches AMOUNT_RE txt
                                                \<and> \<not> matches DATE_TOKEN_SIMPLE txt
                                                \<and> upper txt \<notin> set HEADER_TOKENS)
                                            (map w_text r)));
          d0 = strip (join (filter (\<lambda>x. x \<noteq> []) [descr_raw, ref_raw]));
          d1 = strip_bbva_footer (if d0 = [] then fallback_desc else d0)
      in strip_crosspage_noise d1
           (second_cross_active st \<and> current_tx st \<noteq> None \<and> current_tx_index st = Some 1))"

definition bbva_row ::
  "int \<Rightarrow> (real \<times> real) list \<Rightarrow> bstate \<Rightarrow> pword list \<Rightarrow> row_result outcome" where
  "bbva_row year_hint bounds st r =
     (let row_full_txt = row_text_of r in
      if is_stop_row row_full_txt then Returned (Breaks False)
      else if is_totals_row row_full_txt then Returned (Breaks True)
      else
        let cols = assign_cols 8 r bounds;
            oper_raw = cols ! 0; liq_raw = cols ! 1; descr_raw = cols ! 2; ref_raw = cols ! 3;
            car_raw = cols ! 4; abo_raw = cols ! 5; sop_raw = cols ! 6; sliq_raw = cols ! 7;
            desc_piece = desc_piece_of st r cols;
            header_line = contains ''DETALLE DE MOVIMIENTOS'' (upper descr_raw @ upper ref_raw);
            dashed = prefix ''- -'' (strip descr_raw);
            no_dates = (oper_raw = [] \<and> liq_raw = []);
            no_amounts = \<not> (matches AMOUNT_RE car_raw \<or> matches AMOUNT_RE abo_raw
                            \<or> matches AMOUNT_RE sop_raw \<or> matches AMOUNT_RE sliq_raw)
        in if header_line \<or> dashed then Returned (Goes_on st)
           else if no_dates \<and> no_amounts \<and> desc_piece \<noteq> []
                   \<and> (matches NOTICE_PAT desc_piece \<or> matches FOOTER_PAT desc_piece)
           then Returned (Goes_on st)
           else if no_dates \<and> no_amounts \<and> desc_piece \<noteq> [] then
             Returned (Goes_on (case current_tx st of
                                  None \<Rightarrow> st
                                | Some cur \<Rightarrow>
                                    st\<lparr>current_tx :=
                                         Some (cur\<lparr>desc := strip (desc cur @ '' '' @ desc_piece)\<rparr>)\<rparr>))
           else if \<not> no_dates then
             (let st1 = (case current_tx st of
                           None \<Rightarrow> st
                         | Some cur \<Rightarrow> st\<lparr>txs := txs st @ [cur], current_tx := None,
                                            second_cross_active := False\<rparr>)
              in case (if oper_raw \<noteq> [] then parse_ddmon oper_raw year_hint else Returned None) of
                   Raised \<Rightarrow> Raised
                 | Returned fo \<Rightarrow>
                     (case (if liq_raw \<noteq> [] then parse_ddmon liq_raw year_hint
                            else Returned None) of
                        Raised \<Rightarrow> Raised
                      | Returned fl \<Rightarrow>
                          (let new = \<lparr> f_oper = fo, f_liq = fl, desc = desc_piece, cargos = 0,
                                       abonos = 0, s_oper = None, s_liq = None \<rparr>
                           in Returned (Goes_on (st1\<lparr>current_tx_index := Some (length (txs st1)),
                                                     current_tx := Some (set_amounts new cols)\<rparr>)))))
           else
             Returned (Goes_on (case current_tx st of
                                  None \<Rightarrow> st
                                | Some cur \<Rightarrow>
                                    (let cur1 = (if desc_piece \<noteq> []
                                                 then cur\<lparr>desc := strip (desc cur @ '' '' @ desc_piece)\<rparr>
                                                 else cur)
                                     in st\<lparr>current_tx := Some (set_amounts cur1 cols)\<rparr>))))"

text \<open>The loop over the rows of a page: the state after it and whether the totals row
  was seen.\<close>

fun bbva_rows ::
  "int \<Rightarrow> (real \<times> real) list \<Rightarrow> bstate \<Rightarrow> pword list list \<Rightarrow> (bstate \<times> bool) outcome" where
  "bbva_rows year_hint bounds st [] = Returned (st, False)"
| "bbva_rows year_hint bounds st (r # rs) =
     (case bbva_row year_hint bounds st r of
        Raised \<Rightarrow> Raised
      | Returned (Breaks saw_totals) \<Rightarrow> Returned (st, saw_totals)
      | Returned (Goes_on st') \<Rightarrow> bbva_rows year_hint bounds st' rs)"

text \<open>What is done when the rows of a page are finished.\<close>

definition end_of_page :: "bstate \<Rightarrow> bool \<Rightarrow> bstate" where
  "end_of_page st saw_totals_here =
     st\<lparr>second_cross_active := (current_tx st \<noteq> None \<and> current_tx_index st = Some 1),
        hard_stop_after_this_page := (hard_stop_after_this_page st \<or> saw_totals_here)\<rparr>"

definition bbva_page_rows :: "page \<Rightarrow> (real \<times> real) list \<times> pword list list" where
  "bbva_page_rows pg =
     (let (bounds, header_y) = bbva_detect_columns (page_words pg) (page_width pg)
      in (bounds, group_rows (page_words pg) header_y))"

fun bbva_pages :: "int \<Rightarrow> bstate \<Rightarrow> page list \<Rightarrow> bstate outcome" where
  "bbva_pages year_hint st [] = Returned st"
| "bbva_pages year_hint st (pg # pgs) =
     (if matches SKIP_PAGE_PAT (replace_char nbsp '' '' (page_text pg))
      then bbva_pages year_hint st pgs
      else
        case bbva_rows year_hint (fst (bbva_page_rows pg)) st (snd (bbva_page_rows pg)) of
          Raised \<Rightarrow> Raised
        | Returned (st', saw_totals_here) \<Rightarrow>
            (let st'' = end_of_page st' saw_totals_here
             in if hard_stop_after_this_page st'' then Returned st''
                else bbva_pages year_hint st'' pgs))"

text \<open>The movements of a statement: the closed ones, then the one still open when the
  pages end; the description of the second is cleaned once more.\<close>

definition bbva_movements :: "int \<Rightarrow> page list \<Rightarrow> btx list outcome" where
  "bbva_movements year_hint pgs =
     (case bbva_pages year_hint
             \<lparr>txs = [], current_tx = None, second_cross_active = False,
              current_tx_index = None, hard_stop_after_this_page = False\<rparr> pgs of
        Raised \<Rightarrow> Raised
      | Returned st \<Rightarrow>
          (let all = (case current_tx st of None \<Rightarrow> txs st | Some cur \<Rightarrow> txs st @ [cur])
           in Returned
                (if 2 \<le> length all \<and> desc (all ! 1) \<noteq> []
                 then all[1 := (all ! 1)\<lparr>desc := strip_crosspage_noise (desc (all ! 1)) True\<rparr>]
                 else all)))"

section \<open>Example statements\<close>

text \<open>A word 20 units wide and 8 units high with its left upper corner at (x, y).\<close>

definition word_at :: "string \<Rightarrow> real \<Rightarrow> real \<Rightarrow> pword" where
  "word_at t x y = \<lparr>w_text = t, x0 = x, x1 = x + 20, w_top = y, w_bottom = y + 8\<rparr>"

text \<open>
  A Santander statement of two pages, 1000 units wide, without header labels: page 1 has
  the row \<open>03-ENE-2024 PAGO LUZ 150.00\<close> with the amount in the withdrawal column, page 2
  has the row \<open>9,850.00\<close> in the balance column. The same movement on a single page.
\<close>

definition santander_first_page :: page where
  "santander_first_page = \<lparr>page_words = [word_at ''03-ENE-2024'' 60 100, word_at ''PAGO'' 300 100,
     word_at ''LUZ'' 330 100, word_at ''150.00'' 730 100], page_width = 1000, page_text = []\<rparr>"

definition santander_second_page :: page where
  "santander_second_page =
     \<lparr>page_words = [word_at ''9,850.00'' 870 50], page_width = 1000, page_text = []\<rparr>"

definition santander_single_page :: page where
  "santander_single_page = \<lparr>page_words = [word_at ''03-ENE-2024'' 60 100, word_at ''PAGO'' 300 100,
     word_at ''LUZ'' 330 100, word_at ''150.00'' 730 100, word_at ''9,850.00'' 870 120],
     page_width = 1000, page_text = []\<rparr>"

text \<open>
  A BBVA statement of two pages: page 1 has the row \<open>03/ENE PAGO LUZ 150.00\<close> with the
  amount in the CARGOS column, page 2 has the row \<open>9,850.00\<close> in the column of the
  balance after the operation.
\<close>

definition bbva_first_page :: page where
  "bbva_first_page = \<lparr>page_words = [word_at ''03/ENE'' 70 100, word_at ''PAGO'' 320 100,
     word_at ''LUZ'' 350 100, word_at ''150.00'' 690 100], page_width = 1000, page_text = []\<rparr>"

definition bbva_second_page :: page where
  "bbva_second_page =
     \<lparr>page_words = [word_at ''9,850.00'' 850 50], page_width = 1000, page_text = []\<rparr>"

text \<open>The BBVA state with the movement of page 1 open, as the end of that page leaves it.\<close>

definition bbva_open_payment :: btx where
  "bbva_open_payment = \<lparr> f_oper = Some (2024, 1, 3), f_liq = None, desc = ''PAGO LUZ'',
     cargos = 150, abonos = 0, s_oper = None, s_liq = None \<rparr>"

definition bbva_after_first_page :: bstate where
  "bbva_after_first_page = \<lparr>txs = [], current_tx = Some bbva_open_payment,
     second_cross_active = False, current_tx_index = Some 0,
     hard_stop_after_this_page = False\<rparr>"



text \<open>Header words of a Santander page (FECHA and SALDO) and of a BBVA page (CARGOS).\<close>

definition santander_header_words :: "pword list" where
  "santander_header_words = [word_at ''FECHA'' 50 20, word_at ''SALDO'' 900 20]"

definition bbva_header_words :: "pword list" where
  "bbva_header_words = [word_at ''CARGOS'' 600 20]"

text \<open>A Santander row with a date, a description and a run of three amounts.\<close>

definition santander_three_run_row :: "pword list" where
  "santander_three_run_row = [word_at ''03-ENE-2024'' 60 100, word_at ''ABONO'' 300 100,
     word_at ''100.00'' 610 100, word_at ''0.00'' 730 100, word_at ''900.00'' 870 100]"



text \<open>What the dictionary \<open>rows\<close> holds after the words \<open>ws\<close> have been filed.\<close>

definition bucket_inv :: "('a \<Rightarrow> int) \<Rightarrow> (int \<times> 'a list) list \<Rightarrow> 'a list \<Rightarrow> bool" where
  "bucket_inv key m ws \<longleftrightarrow> distinct (map fst m) \<and> set (map fst m) = key ` set ws \<and>
     (\<forall>w \<in> set ws. map_of m (key w) = Some (filter (\<lambda>u. key u = key w) ws))"

section \<open>Properties\<close>

lemma py_round_of_int: "py_round (of_int n) = n"
  by (simp add: py_round_def)

lemma round2_zero: "round2 0 = 0"
  by (simp add: round2_def py_round_def)

lemma py_round_nonneg: "0 \<le> x \<Longrightarrow> 0 \<le> py_round x"
  by (auto simp: py_round_def Let_def)

lemma round2_nonneg: "0 \<le> x \<Longrightarrow> 0 \<le> round2 x"
  by (simp add: round2_def py_round_nonneg)

lemma round2_two_decimals: "two_decimals x \<Longrightarrow> round2 x = x"
proof -
  assume "two_decimals x"
  then have e: "x * 100 = of_int \<lfloor>x * 100\<rfloor>"
    unfolding two_decimals_def by (rule sym)
  have "py_round (x * 100) = \<lfloor>x * 100\<rfloor>"
    by (subst e) (rule py_round_of_int)
  then have "round2 x = x * 100 / 100"
    unfolding round2_def using e by presburger
  then show ?thesis
    by simp
qed

subsection \<open>Reconciliation of a movement with both sides filled\<close>

text \<open>
  C4. When \<open>_reconcile_amounts\<close> receives a deposit and a withdrawal that are both
  positive and the description matches both keyword lists or neither, it returns deposit
  0 (the credit side) and the withdrawal (the debit side) as it came. The amounts that
  reach it are two-decimal values, which the final \<open>round(ret, 2)\<close> gives back.
\<close>

theorem reconcile_ambiguous_keeps_debit:
  assumes "0 < dep" and "0 < ret"
    and "has_tokens dsc ABONO_KEYS = has_tokens dsc RETIRO_KEYS"
    and "two_decimals ret"
  shows "reconcile_amounts dsc dep ret = (0, ret)"
  using assms by (auto simp: reconcile_amounts_def Let_def round2_zero round2_two_decimals)

theorem reconcile_ambiguous_keeps_debit_witness:
  "(0::real) < 100 \<and> (0::real) < 200
   \<and> has_tokens ''MISC'' ABONO_KEYS = has_tokens ''MISC'' RETIRO_KEYS
   \<and> has_tokens ''PAGO ABONO'' ABONO_KEYS = has_tokens ''PAGO ABONO'' RETIRO_KEYS
   \<and> two_decimals 200
   \<and> reconcile_amounts ''MISC'' 100 200 = (0, 200)
   \<and> reconcile_amounts ''PAGO ABONO'' 100 200 = (0, 200)"
proof -
  have k1: "has_tokens ''MISC'' ABONO_KEYS = has_tokens ''MISC'' RETIRO_KEYS"
    by code_simp
  have k2: "has_tokens ''PAGO ABONO'' ABONO_KEYS = has_tokens ''PAGO ABONO'' RETIRO_KEYS"
    by code_simp
  have d: "two_decimals 200"
    by (simp add: two_decimals_def)
  have p1: "(0::real) < 100" and p2: "(0::real) < 200"
    by simp_all
  show ?thesis
    using reconcile_ambiguous_keeps_debit [OF p1 p2 k1 d]
      reconcile_ambiguous_keeps_debit [OF p1 p2 k2 d] k1 k2 d
    by simp
qed

subsection \<open>Amount normalisation never fails\<close>

text \<open>
  C10. \<open>_norm_amount\<close> returns a number for every argument, whatever \<open>float\<close> does with
  the cleaned text: for \<open>None\<close>, for the empty string and for a text on which \<open>float\<close>
  raises, the number is 0.
\<close>

theorem norm_amount_total:
  "(\<exists>v. norm_amount_with float s = Returned v)
   \<and> norm_amount_with float None = Returned 0
   \<and> norm_amount_with float (Some []) = Returned 0
   \<and> (float (amount_text t) = Raised \<longrightarrow> norm_amount_with float (Some t) = Returned 0)"
  by (auto simp: norm_amount_with_def split: option.splits outcome.splits)

theorem norm_amount_total_witness:
  "py_float (amount_text ''$ 12,3x'') = Raised
   \<and> norm_amount_with py_float (Some ''$ 12,3x'') = Returned 0
   \<and> norm_amount_with py_float (Some ''$ 1,234.50'') = Returned (2469 / 2)"
proof -
  have r: "py_float (amount_text ''$ 12,3x'') = Raised"
    by code_simp
  have v: "norm_amount_with py_float (Some ''$ 1,234.50'') = Returned (2469 / 2)"
    by code_simp
  from norm_amount_total [of py_float "Some ''$ 12,3x''" "''$ 12,3x''"] r v
  show ?thesis
    by simp
qed

subsection \<open>Row grouping\<close>

lemma sda_keys: "map fst (setdefault_append m k v) = (if k \<in> set (map fst m) then map fst m else map fst m @ [k])"
  by (induction m k v rule: setdefault_append.induct) auto

lemma sda_map_of:
  "distinct (map fst m) \<Longrightarrow> map_of (setdefault_append m k v) k' =
     (if k' = k then Some ((case map_of m k of Some ws \<Rightarrow> ws | None \<Rightarrow> []) @ [v]) else map_of m k')"
  by (induction m k v rule: setdefault_append.induct) (auto split: option.splits)

lemma bucket_inv_step:
  assumes "bucket_inv key m ws"
  shows "bucket_inv key (setdefault_append m (key v) v) (ws @ [v])"
proof -
  from assms have d: "distinct (map fst m)"
    and ks: "set (map fst m) = key ` set ws"
    and mo: "\<And>w. w \<in> set ws \<Longrightarrow> map_of m (key w) = Some (filter (\<lambda>u. key u = key w) ws)"
    by (auto simp: bucket_inv_def)
  have d': "distinct (map fst (setdefault_append m (key v) v))"
    using d by (simp add: sda_keys)
  have ks': "set (map fst (setdefault_append m (key v) v)) = key ` set (ws @ [v])"
    using ks by (auto simp: sda_keys)
  have new: "map_of (setdefault_append m (key v) v) (key v) = Some (filter (\<lambda>u. key u = key v) (ws @ [v]))"
  proof (cases "key v \<in> key ` set ws")
    case True
    then obtain w where "w \<in> set ws" "key w = key v" by auto
    with mo[of w] show ?thesis using d by (simp add: sda_map_of)
  next
    case False
    then have "map_of m (key v) = None"
      using ks by (metis map_of_eq_None_iff set_map)
    moreover have "\<forall>u \<in> set ws. key u \<noteq> key v"
      using False by (metis imageI)
    then have "filter (\<lambda>u. key u = key v) ws = []"
      by (simp add: filter_empty_conv)
    ultimately show ?thesis using d by (simp add: sda_map_of)
  qed
  have old: "map_of (setdefault_append m (key v) v) (key w) = Some (filter (\<lambda>u. key u = key w) (ws @ [v]))"
    if "w \<in> set ws" "key w \<noteq> key v" for w
    using that mo[of w] d by (simp add: sda_map_of)
  have all: "map_of (setdefault_append m (key v) v) (key w) = Some (filter (\<lambda>u. key u = key w) (ws @ [v]))"
    if "w \<in> set (ws @ [v])" for w
  proof (cases "key w = key v")
    case True
    then show ?thesis using new by simp
  next
    case False
    with that have "w \<in> set ws" by auto
    from old[OF this False] show ?thesis .
  qed
  show ?thesis
    unfolding bucket_inv_def using d' ks' all by blast
qed

lemma bucket_inv_foldl:
  "bucket_inv key m ws \<Longrightarrow>
   bucket_inv key (foldl (\<lambda>m w. setdefault_append m (key w) w) m vs) (ws @ vs)"
proof (induction vs arbitrary: m ws)
  case Nil
  then show ?case by simp
next
  case (Cons v vs)
  from bucket_inv_step[OF Cons.prems, of v]
  have "bucket_inv key (setdefault_append m (key v) v) (ws @ [v])" .
  from Cons.IH[OF this] show ?case by simp
qed

lemma bucket_inv_empty: "bucket_inv key [] []"
  by (simp add: bucket_inv_def)

lemma sort_distinct_keys: "distinct xs \<Longrightarrow> sort xs = sorted_list_of_set (set xs)"
  by (simp add: sorted_list_of_set_sort_remdups distinct_remdups_id)

text \<open>
  C9. \<open>_group_rows\<close> is the grouping the specification describes: the body tokens are
  those more than one unit below \<open>header_y\<close>, the bin size is 0.70 times their average
  height clamped to [2.0, 4.2], a token goes to the bucket \<open>round(top / bin)\<close>, each bucket
  is sorted by \<open>x0\<close> (a stable sort, as Python's) and the buckets come out in increasing
  order of their key.
\<close>

theorem group_rows_buckets: "group_rows words header_y = group_rows_spec words header_y"
proof -
  define body :: "pword list" where "body = filter (\<lambda>w. header_y + 1 < w_top w) words"
  define key :: "pword \<Rightarrow> int" where "key = (\<lambda>w. py_round (w_top w / ybin_of body))"
  define rows where "rows = foldl (\<lambda>m w. setdefault_append m (key w) w) [] body"
  have inv: "bucket_inv key rows body"
    using bucket_inv_foldl[OF bucket_inv_empty, of key body] by (simp add: rows_def)
  have keys: "sort (map fst rows) = sorted_list_of_set (key ` set body)"
    using inv by (simp add: bucket_inv_def sort_distinct_keys)
  have look: "(case map_of rows k of Some ws \<Rightarrow> ws | None \<Rightarrow> []) = filter (\<lambda>w. key w = k) body"
    if "k \<in> key ` set body" for k
    using that inv by (auto simp: bucket_inv_def)
  have fin: "finite (key ` set body)" by simp
  have m: "map (\<lambda>k. sort_key x0 (case map_of rows k of Some ws \<Rightarrow> ws | None \<Rightarrow> []))
               (sorted_list_of_set (key ` set body))
         = map (\<lambda>k. sort_key x0 (filter (\<lambda>w. key w = k) body)) (sorted_list_of_set (key ` set body))"
    by (rule map_cong) (auto simp: look)
  have yb: "max 2 (min 4.2 (0.70 * (sum_list (map (\<lambda>w. w_bottom w - w_top w) body) / real (length body)))) = ybin_of body"
    if "body \<noteq> []"
    using that by (simp add: ybin_of_def Let_def mult.commute)
  show ?thesis
  proof (cases "body = []")
    case True
    then show ?thesis
      by (simp add: group_rows_def group_rows_spec_def body_def[symmetric] Let_def)
  next
    case False
    have g: "group_rows words header_y =
       map (\<lambda>k. sort_key x0 (case map_of rows k of Some ws \<Rightarrow> ws | None \<Rightarrow> []))
           (sort (map fst rows))"
      unfolding group_rows_def rows_def key_def body_def Let_def
      using False[unfolded body_def] by simp
    have "group_rows words header_y =
       map (\<lambda>k. sort_key x0 (filter (\<lambda>w. key w = k) body)) (sorted_list_of_set (key ` set body))"
      by (simp only: g keys m)
    moreover have "group_rows_spec words header_y =
       map (\<lambda>k. sort_key x0 (filter (\<lambda>w. key w = k) body)) (sorted_list_of_set (key ` set body))"
      unfolding group_rows_spec_def Let_def
      by (simp only: body_def[symmetric] yb[OF False] key_def)
    ultimately show ?thesis by simp
  qed
qed
subsection \<open>Column bands\<close>

lemma bands_cover:
  "l \<le> xc \<Longrightarrow> xc \<le> r \<Longrightarrow>
   list_ex (in_band xc) (bands l ms r) \<or> (\<exists>m \<in> set ms. \<bar>xc - m\<bar> < 1)"
proof (induction ms arbitrary: l)
  case Nil
  then show ?case by (simp add: in_band_def)
next
  case (Cons m ms)
  consider "xc \<le> m - 1" | "m - 1 < xc" "xc < m + 1" | "m + 1 \<le> xc" by linarith
  then show ?case
  proof cases
    case 1
    with Cons.prems show ?thesis by (simp add: in_band_def)
  next
    case 2
    then have "\<bar>xc - m\<bar> < 1" by linarith
    then show ?thesis by simp
  next
    case 3
    from Cons.IH[OF 3 Cons.prems(2)] show ?thesis by auto
  qed
qed

lemma bands_fst: "b \<in> set (bands l ms r) \<Longrightarrow> fst b = l \<or> (\<exists>m \<in> set ms. fst b = m + 1)"
  by (induction ms arbitrary: l) auto

lemma bands_ordered:
  "sorted ms \<Longrightarrow> sorted_wrt (\<lambda>a b. snd a < fst b) (bands l ms r)"
proof (induction ms arbitrary: l)
  case Nil
  then show ?case by simp
next
  case (Cons m ms)
  have "m - 1 < fst b" if "b \<in> set (bands (m + 1) ms r)" for b
    using bands_fst[OF that] Cons.prems by auto
  with Cons show ?case by simp
qed

lemma ordered_at_most_one:
  "sorted_wrt (\<lambda>a b. snd a < fst b) bs \<Longrightarrow> length (filter (in_band xc) bs) \<le> 1"
proof (induction bs)
  case Nil
  then show ?case by simp
next
  case (Cons b bs)
  show ?case
  proof (cases "in_band xc b")
    case True
    have "\<not> in_band xc c" if "c \<in> set bs" for c
      using Cons.prems that True by (auto simp: in_band_def)
    then have "filter (in_band xc) bs = []"
      by (simp add: filter_empty_conv)
    with True show ?thesis by simp
  next
    case False
    with Cons show ?thesis by simp
  qed
qed

lemma mids_ge: "sorted (b # xs) \<Longrightarrow> m \<in> set (mids (b # xs)) \<Longrightarrow> b \<le> m"
proof (induction xs arbitrary: b)
  case Nil
  then show ?case by simp
next
  case (Cons c ys)
  from Cons.prems(1) have bc: "b \<le> c" and sc: "sorted (c # ys)" by simp_all
  from Cons.prems(2) have "m = mid b c \<or> m \<in> set (mids (c # ys))" by simp
  then show ?case
  proof
    assume "m = mid b c"
    with bc show ?thesis by (simp add: mid_def)
  next
    assume "m \<in> set (mids (c # ys))"
    from Cons.IH[OF sc this] bc show ?thesis by simp
  qed
qed

lemma sorted_mids: "sorted xs \<Longrightarrow> sorted (mids xs)"
proof (induction xs rule: mids.induct)
  case (1 a b xs)
  from "1.prems" have ab: "a \<le> b" and sb: "sorted (b # xs)" by simp_all
  have "mid a b \<le> m" if "m \<in> set (mids (b # xs))" for m
    using mids_ge[OF sb that] ab by (simp add: mid_def)
  then show ?case using 1 sb by simp
qed simp_all

lemma list6:
  assumes "length xs = 6"
  shows "\<exists>a b c d e f. xs = [a, b, c, d, e, f]"
proof -
  from assms obtain a t1 where 1: "xs = a # t1" "length t1 = 5" by (cases xs) auto
  then obtain b t2 where 2: "t1 = b # t2" "length t2 = 4" by (cases t1) auto
  then obtain c t3 where 3: "t2 = c # t3" "length t3 = 3" by (cases t2) auto
  then obtain d t4 where 4: "t3 = d # t4" "length t4 = 2" by (cases t3) auto
  then obtain e t5 where 5: "t4 = e # t5" "length t5 = 1" by (cases t4) auto
  then obtain f where 6: "t5 = [f]" by (cases t5) auto
  from 1 2 3 4 5 6 show ?thesis by blast
qed

lemma list8:
  assumes "length xs = 8"
  shows "\<exists>a b c d e f g h. xs = [a, b, c, d, e, f, g, h]"
proof -
  from assms obtain a t1 where 1: "xs = a # t1" "length t1 = 7" by (cases xs) auto
  then obtain b t2 where 2: "t1 = b # t2" "length t2 = 6" by (cases t1) auto
  from list6[OF 2(2)] 1 2 show ?thesis by blast
qed

lemma bounds6_bands:
  assumes "length xs = 6"
  shows "bounds6 xs pw = bands 0 (mids xs) pw"
proof -
  from list6[OF assms] obtain a b c d e f where "xs = [a, b, c, d, e, f]" by blast
  then show ?thesis by (simp add: bounds6_def)
qed

lemma bounds8_bands:
  assumes "length xs = 8"
  shows "bounds8 xs pw = bands 0 (mids xs) pw"
proof -
  from list8[OF assms] obtain a b c d e f g h where "xs = [a, b, c, d, e, f, g, h]" by blast
  then show ?thesis by (simp add: bounds8_def)
qed

lemma santander_anchors_sorted:
  "sorted (santander_anchors words pw) \<and> length (santander_anchors words pw) = 6"
  unfolding santander_anchors_def Let_def
  by (simp only: sorted_sort length_sort list.size) simp

lemma bbva_anchors_sorted:
  "sorted (bbva_anchors words pw) \<and> length (bbva_anchors words pw) = 8"
  unfolding bbva_anchors_def Let_def
  by (simp only: sorted_sort length_sort list.size) simp

lemma santander_bounds:
  "fst (santander_detect_columns words pw) = bands 0 (mids (santander_anchors words pw)) pw"
  using santander_anchors_sorted[of words pw]
  by (simp add: santander_detect_columns_def Let_def bounds6_bands)

lemma bbva_bounds:
  "fst (bbva_detect_columns words pw) = bands 0 (mids (bbva_anchors words pw)) pw"
  using bbva_anchors_sorted[of words pw]
  by (simp add: bbva_detect_columns_def Let_def bounds8_bands)

lemma bands_fst_ge:
  "sorted (m # ms) \<Longrightarrow> b \<in> set (bands (m + 1) ms r) \<Longrightarrow> m + 1 \<le> fst b"
  using bands_fst [of b "m + 1" ms r] by auto

lemma bands_gap:
  "sorted ms \<Longrightarrow> m \<in> set ms \<Longrightarrow> \<bar>xc - m\<bar> < 1 \<Longrightarrow> \<not> list_ex (in_band xc) (bands l ms r)"
proof (induction ms arbitrary: l)
  case Nil
  then show ?case by simp
next
  case (Cons m' ms)
  from Cons.prems(1) have s: "sorted ms" and le: "\<forall>x \<in> set ms. m' \<le> x" by simp_all
  from Cons.prems(2) le have mm: "m' \<le> m" by auto
  from Cons.prems(3) have lo: "m - 1 < xc" and hi: "xc < m + 1" by linarith+
  have first: "\<not> in_band xc (l, m' - 1)"
    using mm lo by (simp add: in_band_def)
  have rest: "\<not> list_ex (in_band xc) (bands (m' + 1) ms r)"
  proof (cases "m \<in> set ms")
    case True
    from Cons.IH [OF s True Cons.prems(3)] show ?thesis .
  next
    case False
    with Cons.prems(2) have e: "m = m'" by simp
    have "\<not> in_band xc b" if "b \<in> set (bands (m' + 1) ms r)" for b
      using bands_fst_ge [OF Cons.prems(1) that] hi e by (simp add: in_band_def)
    then show ?thesis by (simp add: list_ex_iff)
  qed
  from first rest show ?case by simp
qed

text \<open>
  C6, as the code has it. The bands returned by \<open>_detect_columns\<close> (Santander and BBVA)
  never overlap, so an x-centre lies in at most one of them. They do not cover the page:
  around every midpoint between neighbouring anchors the open interval of one unit on each
  side belongs to no band. An x-centre in [0, page_width] is in a band or in such a gap,
  and never in both.
\<close>

theorem column_bands_disjoint_with_gaps:
  "length (filter (in_band xc) (fst (santander_detect_columns words pw))) \<le> 1
   \<and> length (filter (in_band xc) (fst (bbva_detect_columns words pw))) \<le> 1
   \<and> (\<forall>m \<in> set (mids (santander_anchors words pw)). \<bar>xc - m\<bar> < 1 \<longrightarrow>
         \<not> list_ex (in_band xc) (fst (santander_detect_columns words pw)))
   \<and> (\<forall>m \<in> set (mids (bbva_anchors words pw)). \<bar>xc - m\<bar> < 1 \<longrightarrow>
         \<not> list_ex (in_band xc) (fst (bbva_detect_columns words pw)))
   \<and> (0 \<le> xc \<and> xc \<le> pw \<longrightarrow>
        (list_ex (in_band xc) (fst (santander_detect_columns words pw))
           \<or> (\<exists>m \<in> set (mids (santander_anchors words pw)). \<bar>xc - m\<bar> < 1))
        \<and> (list_ex (in_band xc) (fst (bbva_detect_columns words pw))
           \<or> (\<exists>m \<in> set (mids (bbva_anchors words pw)). \<bar>xc - m\<bar> < 1)))"
proof -
  have ss: "sorted (mids (santander_anchors words pw))"
    by (rule sorted_mids) (simp add: santander_anchors_sorted)
  have sb: "sorted (mids (bbva_anchors words pw))"
    by (rule sorted_mids) (simp add: bbva_anchors_sorted)
  have a1: "length (filter (in_band xc) (fst (santander_detect_columns words pw))) \<le> 1"
    unfolding santander_bounds
    by (rule ordered_at_most_one, rule bands_ordered, rule ss)
  have a2: "length (filter (in_band xc) (fst (bbva_detect_columns words pw))) \<le> 1"
    unfolding bbva_bounds
    by (rule ordered_at_most_one, rule bands_ordered, rule sb)
  have g1: "\<forall>m \<in> set (mids (santander_anchors words pw)). \<bar>xc - m\<bar> < 1 \<longrightarrow>
         \<not> list_ex (in_band xc) (fst (santander_detect_columns words pw))"
    unfolding santander_bounds using bands_gap [OF ss] by blast
  have g2: "\<forall>m \<in> set (mids (bbva_anchors words pw)). \<bar>xc - m\<bar> < 1 \<longrightarrow>
         \<not> list_ex (in_band xc) (fst (bbva_detect_columns words pw))"
    unfolding bbva_bounds using bands_gap [OF sb] by blast
  have c1: "list_ex (in_band xc) (fst (santander_detect_columns words pw))
           \<or> (\<exists>m \<in> set (mids (santander_anchors words pw)). \<bar>xc - m\<bar> < 1)"
    if "0 \<le> xc \<and> xc \<le> pw"
    unfolding santander_bounds using bands_cover [of 0 xc pw] that by blast
  have c2: "list_ex (in_band xc) (fst (bbva_detect_columns words pw))
           \<or> (\<exists>m \<in> set (mids (bbva_anchors words pw)). \<bar>xc - m\<bar> < 1)"
    if "0 \<le> xc \<and> xc \<le> pw"
    unfolding bbva_bounds using bands_cover [of 0 xc pw] that by blast
  from a1 a2 g1 g2 c1 c2 show ?thesis by blast
qed

text \<open>
  On a Santander page with the labels FECHA (centre 60) and SALDO (centre 910) detected
  the first midpoint is 110, and on a BBVA page with CARGOS (centre 610) detected the
  midpoints include 560: a token centred at 110.5, or at 560.5, is in no band, and a token
  centred at 100 is in one.
\<close>

theorem column_bands_disjoint_with_gaps_witness:
  "110 \<in> set (mids (santander_anchors santander_header_words 1000))
   \<and> \<bar>(221 / 2 :: real) - 110\<bar> < 1
   \<and> \<not> list_ex (in_band (221 / 2)) (fst (santander_detect_columns santander_header_words 1000))
   \<and> 560 \<in> set (mids (bbva_anchors bbva_header_words 1000))
   \<and> \<bar>(1121 / 2 :: real) - 560\<bar> < 1
   \<and> \<not> list_ex (in_band (1121 / 2)) (fst (bbva_detect_columns bbva_header_words 1000))
   \<and> (0::real) \<le> 100 \<and> (100::real) \<le> 1000
   \<and> list_ex (in_band 100) (fst (santander_detect_columns santander_header_words 1000))
   \<and> list_ex (in_band 100) (fst (bbva_detect_columns bbva_header_words 1000))
   \<and> length (filter (in_band 100) (fst (santander_detect_columns santander_header_words 1000))) \<le> 1
   \<and> length (filter (in_band 100) (fst (bbva_detect_columns bbva_header_words 1000))) \<le> 1"
proof -
  have m1: "110 \<in> set (mids (santander_anchors santander_header_words 1000))"
    by code_simp
  have m2: "560 \<in> set (mids (bbva_anchors bbva_header_words 1000))"
    by code_simp
  have d1: "\<bar>(221 / 2 :: real) - 110\<bar> < 1" and d2: "\<bar>(1121 / 2 :: real) - 560\<bar> < 1"
    by simp_all
  have s: "list_ex (in_band 100) (fst (santander_detect_columns santander_header_words 1000))"
    by code_simp
  have b: "list_ex (in_band 100) (fst (bbva_detect_columns bbva_header_words 1000))"
    by code_simp
  have p1: "(0::real) \<le> 100" and p2: "(100::real) \<le> 1000"
    by simp_all
  note t = column_bands_disjoint_with_gaps [of 100 santander_header_words 1000]
  note u = column_bands_disjoint_with_gaps [of "221 / 2" santander_header_words 1000]
  note v = column_bands_disjoint_with_gaps [of "1121 / 2" bbva_header_words 1000]
  note w = column_bands_disjoint_with_gaps [of 100 bbva_header_words 1000]
  from t have l1: "length (filter (in_band 100) (fst (santander_detect_columns santander_header_words 1000))) \<le> 1"
    by (rule conjunct1)
  from w have l2: "length (filter (in_band 100) (fst (bbva_detect_columns bbva_header_words 1000))) \<le> 1"
    by (rule conjunct1 [OF conjunct2])
  from u m1 d1 have n1: "\<not> list_ex (in_band (221 / 2)) (fst (santander_detect_columns santander_header_words 1000))"
    by blast
  from v m2 d2 have n2: "\<not> list_ex (in_band (1121 / 2)) (fst (bbva_detect_columns bbva_header_words 1000))"
    by blast
  show ?thesis
    by (intro conjI m1 d1 n1 m2 d2 n2 p1 p2 s b l1 l2)
qed

text \<open>
  With no header label on a page 1000 units wide the Santander anchors are the default
  fractions 70, 160, 400, 620, 740 and 880. The first midpoint is 115, and a token
  centred there is in no band.
\<close>

theorem column_bands_gap_counterexample:
  "(0::real) \<le> 115 \<and> (115::real) \<le> 1000
   \<and> \<not> list_ex (in_band 115) (fst (santander_detect_columns [] 1000))"
proof -
  have "\<not> list_ex (in_band 115) (fst (santander_detect_columns [] 1000))"
    by code_simp
  then show ?thesis
    by simp
qed

subsection \<open>Classification of a single ambiguous amount\<close>

text \<open>
  C3, as the code has it. Banorte's \<open>_classify\<close> and Santander's \<open>_classify_by_keywords\<close>
  return the pair (withdrawal, deposit): a non-zero amount is a debit exactly when the
  description matches a debit keyword and no credit keyword, and a credit otherwise, so
  credit is their default when both lists or neither match. BBVA's
  \<open>_maybe_fix_amount_columns\<close>, which moves the only balance of a movement without
  amounts, decides the other way round: the amount is a credit (\<open>abonos\<close>) exactly when the
  description matches a credit keyword and no debit keyword, and a debit (\<open>cargos\<close>)
  otherwise, so debit is its default.
\<close>

theorem classifier_decision_rule:
  "(monto \<noteq> 0 \<longrightarrow>
      classify d monto = (if debit_match d \<and> \<not> credit_match d then (monto, 0) else (0, monto)))
   \<and> (monto \<noteq> 0 \<longrightarrow>
      classify_by_keywords d monto =
        (if has_tokens d RETIRO_KEYS \<and> \<not> has_tokens d ABONO_KEYS then (monto, 0) else (0, monto)))
   \<and> (cargos tx = 0 \<and> abonos tx = 0 \<and> saldos_of tx = [v] \<longrightarrow>
      maybe_fix_amount_columns tx =
        (if is_credit (upper (desc tx)) \<and> \<not> is_debit (upper (desc tx))
         then tx\<lparr>abonos := v, s_oper := None, s_liq := None\<rparr>
         else tx\<lparr>cargos := v, s_oper := None, s_liq := None\<rparr>))"
  by (simp add: classify_def classify_by_keywords_def maybe_fix_amount_columns_def Let_def)

text \<open>
  \<open>PAGO LUZ\<close> with the amount 150 is a debit for Banorte and for Santander; a BBVA
  movement \<open>ABONO NOMINA\<close> whose only figure is the balance 123.45 gets it as a
  credit.
\<close>

theorem classifier_decision_rule_witness:
  "(150::real) \<noteq> 0
   \<and> classify ''PAGO LUZ'' 150 = (150, 0)
   \<and> classify_by_keywords ''PAGO LUZ'' 150 = (150, 0)
   \<and> cargos \<lparr>f_oper = None, f_liq = None, desc = ''ABONO NOMINA'', cargos = 0, abonos = 0,
              s_oper = Some (2469 / 20), s_liq = None\<rparr> = 0
   \<and> abonos \<lparr>f_oper = None, f_liq = None, desc = ''ABONO NOMINA'', cargos = 0, abonos = 0,
              s_oper = Some (2469 / 20), s_liq = None\<rparr> = 0
   \<and> saldos_of \<lparr>f_oper = None, f_liq = None, desc = ''ABONO NOMINA'', cargos = 0, abonos = 0,
                 s_oper = Some (2469 / 20), s_liq = None\<rparr> = [2469 / 20]
   \<and> maybe_fix_amount_columns
       \<lparr>f_oper = None, f_liq = None, desc = ''ABONO NOMINA'', cargos = 0, abonos = 0,
        s_oper = Some (2469 / 20), s_liq = None\<rparr>
     = \<lparr>f_oper = None, f_liq = None, desc = ''ABONO NOMINA'', cargos = 0, abonos = 2469 / 20,
        s_oper = None, s_liq = None\<rparr>"
proof -
  let ?tx = "\<lparr>f_oper = None, f_liq = None, desc = ''ABONO NOMINA'', cargos = 0, abonos = 0,
              s_oper = Some (2469 / 20), s_liq = None\<rparr>"
  note t = classifier_decision_rule [of 150 "''PAGO LUZ''" ?tx "2469 / 20"]
  have n: "(150::real) \<noteq> 0" by simp
  have k1: "debit_match ''PAGO LUZ'' \<and> \<not> credit_match ''PAGO LUZ''" by code_simp
  have k2: "has_tokens ''PAGO LUZ'' RETIRO_KEYS \<and> \<not> has_tokens ''PAGO LUZ'' ABONO_KEYS"
    by code_simp
  have k3: "is_credit (upper (desc ?tx)) \<and> \<not> is_debit (upper (desc ?tx))" by code_simp
  have h1: "cargos ?tx = 0" and h2: "abonos ?tx = 0" by simp_all
  have h3: "saldos_of ?tx = [2469 / 20]" by code_simp
  from t n k1 have c1: "classify ''PAGO LUZ'' 150 = (150, 0)" by simp
  from t n k2 have c2: "classify_by_keywords ''PAGO LUZ'' 150 = (150, 0)" by simp
  from t h1 h2 h3 k3 have c3: "maybe_fix_amount_columns ?tx
     = \<lparr>f_oper = None, f_liq = None, desc = ''ABONO NOMINA'', cargos = 0, abonos = 2469 / 20,
        s_oper = None, s_liq = None\<rparr>" by simp
  show ?thesis by (intro conjI n c1 c2 h1 h2 h3 c3)
qed

text \<open>
  A BBVA movement \<open>MISC\<close>, which matches neither keyword list, whose only figure is the
  balance 123.45: the amount becomes a debit (\<open>cargos\<close>), not a credit.
\<close>

theorem bbva_default_is_debit_counterexample:
  "\<not> is_credit (upper ''MISC'') \<and> \<not> is_debit (upper ''MISC'')
   \<and> maybe_fix_amount_columns
       \<lparr>f_oper = None, f_liq = None, desc = ''MISC'', cargos = 0, abonos = 0,
        s_oper = Some (2469 / 20), s_liq = None\<rparr>
     = \<lparr>f_oper = None, f_liq = None, desc = ''MISC'', cargos = 2469 / 20, abonos = 0,
        s_oper = None, s_liq = None\<rparr>"
  by code_simp

subsection \<open>Sides of an emitted movement\<close>

lemma reconcile_one_sided:
  assumes "0 \<le> dep" and "0 \<le> ret" and "reconcile_amounts dsc dep ret = (d, r)"
  shows "0 \<le> d \<and> 0 \<le> r \<and> (d = 0 \<or> r = 0)"
proof -
  have z: "round2 x = 0 \<or> round2 y = 0" if "x = 0 \<or> y = 0" for x y
    using that round2_zero by auto
  from assms show ?thesis
    unfolding reconcile_amounts_def Let_def
    by (auto simp: round2_zero round2_nonneg split: if_splits)
qed

text \<open>
  C1, as the code has it. Every movement that the Santander extractor emits goes through
  \<open>flush_current\<close>, which reconciles it: if the two sides of the open movement are not
  negative, the movement appended to the ledger has a deposit and a withdrawal that are
  not negative and at most one of them is not zero. Banorte's parser has no such step:
  with a run of three amounts it stores the first as deposit and the second as
  withdrawal, whatever they are.
\<close>

theorem santander_flush_one_sided:
  assumes "current st = Some cur" and "0 \<le> deposito cur" and "0 \<le> retiro cur"
  shows "\<exists>tx. (if sec = CUENTA then movs_cheques (flush_current st sec) = movs_cheques st @ [tx]
               else movs_inver (flush_current st sec) = movs_inver st @ [tx])
              \<and> sx_desc tx = sx_desc cur \<and> saldo tx = saldo cur
              \<and> 0 \<le> deposito tx \<and> 0 \<le> retiro tx \<and> (deposito tx = 0 \<or> retiro tx = 0)"
proof -
  obtain d r where e: "reconcile_amounts (sx_desc cur) (deposito cur) (retiro cur) = (d, r)"
    by (cases "reconcile_amounts (sx_desc cur) (deposito cur) (retiro cur)") auto
  from reconcile_one_sided [OF assms(2) assms(3) e]
  have p: "0 \<le> d \<and> 0 \<le> r \<and> (d = 0 \<or> r = 0)" .
  show ?thesis
    by (rule exI [of _ "cur\<lparr>deposito := d, retiro := r\<rparr>"])
       (use p in \<open>simp add: flush_current_def assms(1) e\<close>)
qed

text \<open>
  An open Santander movement \<open>MISC\<close> with deposit 100 and withdrawal 200 is appended with
  deposit 0 and withdrawal 200.
\<close>

theorem santander_flush_one_sided_witness:
  "current \<lparr>movs_cheques = [], movs_inver = [],
            current = Some \<lparr>sx_f_oper = None, sx_folio = None, sx_desc = ''MISC'',
                            deposito = 100, retiro = 200, saldo = None\<rparr>\<rparr>
     = Some \<lparr>sx_f_oper = None, sx_folio = None, sx_desc = ''MISC'',
             deposito = 100, retiro = 200, saldo = None\<rparr>
   \<and> (0::real) \<le> 100 \<and> (0::real) \<le> 200
   \<and> (\<exists>tx. movs_cheques (flush_current
              \<lparr>movs_cheques = [], movs_inver = [],
               current = Some \<lparr>sx_f_oper = None, sx_folio = None, sx_desc = ''MISC'',
                               deposito = 100, retiro = 200, saldo = None\<rparr>\<rparr> CUENTA) = [tx]
            \<and> 0 \<le> deposito tx \<and> 0 \<le> retiro tx \<and> (deposito tx = 0 \<or> retiro tx = 0))
   \<and> movs_cheques (flush_current
        \<lparr>movs_cheques = [], movs_inver = [],
         current = Some \<lparr>sx_f_oper = None, sx_folio = None, sx_desc = ''MISC'',
                         deposito = 100, retiro = 200, saldo = None\<rparr>\<rparr> CUENTA)
     = [\<lparr>sx_f_oper = None, sx_folio = None, sx_desc = ''MISC'',
         deposito = 0, retiro = 200, saldo = None\<rparr>]"
proof -
  let ?cur = "\<lparr>sx_f_oper = None, sx_folio = None, sx_desc = ''MISC'',
               deposito = 100, retiro = 200, saldo = None\<rparr>"
  let ?st = "\<lparr>movs_cheques = [], movs_inver = [], current = Some ?cur\<rparr>"
  have h1: "current ?st = Some ?cur" by simp
  have h2: "(0::real) \<le> 100" and h3: "(0::real) \<le> 200" by simp_all
  have g2: "0 \<le> deposito ?cur" and g3: "0 \<le> retiro ?cur" by simp_all
  from santander_flush_one_sided [OF h1 g2 g3, of CUENTA]
  have c: "\<exists>tx. movs_cheques (flush_current ?st CUENTA) = [tx]
            \<and> 0 \<le> deposito tx \<and> 0 \<le> retiro tx \<and> (deposito tx = 0 \<or> retiro tx = 0)"
    by auto
  have v: "movs_cheques (flush_current ?st CUENTA)
     = [\<lparr>sx_f_oper = None, sx_folio = None, sx_desc = ''MISC'',
         deposito = 0, retiro = 200, saldo = None\<rparr>]"
    by code_simp
  show ?thesis by (intro conjI h1 h2 h3 c v)
qed

text \<open>
  The Banorte row \<open>PAGO X 100.00 200.00 300.00\<close>: the movement has the deposit 100 and
  the withdrawal 200, both different from zero.
\<close>

theorem banorte_both_sides_counterexample:
  "movement_of_body ''PAGO X 100.00 200.00 300.00''
     = \<lparr>description = ''PAGO X'', deposit = 100, withdrawal = 200, balance = Some 300\<rparr>"
  by code_simp

subsection \<open>A run of three amounts\<close>

text \<open>
  C2, as the code has it. When the amount run of a row has exactly three values, the
  Banorte parser stores the first as the deposit (the credit), the second as the
  withdrawal (the debit) and the third as the balance, each rounded to two decimals. The
  Santander parser reads the three values in the same order, deposit, withdrawal and
  balance, and then reconciles the first two with the keywords of the description.
\<close>

theorem run_of_three_is_deposit_withdrawal_balance:
  "(extract_amount_run body = (d, [a, b, c]) \<longrightarrow>
      deposit (movement_of_body body) = round2 a
      \<and> withdrawal (movement_of_body body) = round2 b
      \<and> balance (movement_of_body body) = Some (round2 c))
   \<and> (extract_tail_run (line_wo_date_of (row_text_of r)) 3 = (d', [a', b', c'])
      \<and> open_movement r cols = Returned tx \<longrightarrow>
      (deposito tx, retiro tx) = reconcile_amounts (sx_desc tx) a' b' \<and> saldo tx = Some c')"
proof -
  have p1: "deposit (movement_of_body body) = round2 a
      \<and> withdrawal (movement_of_body body) = round2 b
      \<and> balance (movement_of_body body) = Some (round2 c)"
    if "extract_amount_run body = (d, [a, b, c])"
    using that by (simp add: movement_of_body_def round2_opt_def)
  have p2: "(deposito tx, retiro tx) = reconcile_amounts (sx_desc tx) a' b' \<and> saldo tx = Some c'"
    if e: "extract_tail_run (line_wo_date_of (row_text_of r)) 3 = (d', [a', b', c'])"
      and o: "open_movement r cols = Returned tx"
  proof (cases "parse_ddmonyyyy (cols ! 0)")
    case Raised
    with o show ?thesis by (simp add: open_movement_def)
  next
    case (Returned f)
    define dt where "dt = (let d0 = strip_page_garbage (strip (if d' \<noteq> [] then d' else cols ! 2))
                           in if is_garbage_piece d0 then [] else d0)"
    obtain dv rv where rc: "reconcile_amounts dt a' b' = (dv, rv)"
      by (cases "reconcile_amounts dt a' b'") auto
    from o have "tx = \<lparr> sx_f_oper = f,
                   sx_folio = (if strip (cols ! 1) = [] then None else Some (strip (cols ! 1))),
                   sx_desc = dt, deposito = dv, retiro = rv, saldo = Some c' \<rparr>"
      using rc
      by (auto simp add: open_movement_def Returned e run_amounts_def col_amounts_def
            or_else_def or_zero_def Let_def dt_def)
    with rc show ?thesis by simp
  qed
  from p1 p2 show ?thesis by blast
qed

text \<open>
  The Banorte row \<open>ABONO X 100.00 0.00 900.00\<close> and the Santander row
  \<open>03-ENE-2024 ABONO 100.00 0.00 900.00\<close>: 100 is the deposit, 0 the withdrawal and 900
  the balance.
\<close>

theorem run_of_three_is_deposit_withdrawal_balance_witness:
  "extract_amount_run ''ABONO X 100.00 0.00 900.00'' = (''ABONO X'', [100, 0, 900])
   \<and> deposit (movement_of_body ''ABONO X 100.00 0.00 900.00'') = round2 100
   \<and> withdrawal (movement_of_body ''ABONO X 100.00 0.00 900.00'') = round2 0
   \<and> balance (movement_of_body ''ABONO X 100.00 0.00 900.00'') = Some (round2 900)
   \<and> extract_tail_run (line_wo_date_of (row_text_of santander_three_run_row)) 3
       = (''ABONO'', [100, 0, 900])
   \<and> open_movement santander_three_run_row
       [''03-ENE-2024'', [], ''ABONO'', ''100.00'', ''0.00'', ''900.00'']
     = Returned \<lparr>sx_f_oper = Some (2024, 1, 3), sx_folio = None, sx_desc = ''ABONO'',
                 deposito = 100, retiro = 0, saldo = Some 900\<rparr>
   \<and> ((100::real), (0::real)) = reconcile_amounts ''ABONO'' 100 0"
proof -
  let ?cols = "[''03-ENE-2024'', [], ''ABONO'', ''100.00'', ''0.00'', ''900.00'']"
  let ?tx = "\<lparr>sx_f_oper = Some (2024, 1, 3), sx_folio = None, sx_desc = ''ABONO'',
              deposito = 100, retiro = 0, saldo = Some (900::real)\<rparr>"
  note t = run_of_three_is_deposit_withdrawal_balance
             [of "''ABONO X 100.00 0.00 900.00''" "''ABONO X''" 100 0 900
                 santander_three_run_row "''ABONO''" 100 0 900 ?cols ?tx]
  have h1: "extract_amount_run ''ABONO X 100.00 0.00 900.00'' = (''ABONO X'', [100, 0, 900])"
    by code_simp
  have h2: "extract_tail_run (line_wo_date_of (row_text_of santander_three_run_row)) 3
       = (''ABONO'', [100, 0, 900])"
    by code_simp
  have h3: "open_movement santander_three_run_row ?cols = Returned ?tx"
    by code_simp
  from t h1 have c1: "deposit (movement_of_body ''ABONO X 100.00 0.00 900.00'') = round2 100
   \<and> withdrawal (movement_of_body ''ABONO X 100.00 0.00 900.00'') = round2 0
   \<and> balance (movement_of_body ''ABONO X 100.00 0.00 900.00'') = Some (round2 900)"
    by blast
  from t h2 h3 have "(deposito ?tx, retiro ?tx) = reconcile_amounts (sx_desc ?tx) 100 0"
    by blast
  then have c2: "((100::real), (0::real)) = reconcile_amounts ''ABONO'' 100 0" by simp
  from c1 have c1a: "deposit (movement_of_body ''ABONO X 100.00 0.00 900.00'') = round2 100"
    and c1b: "withdrawal (movement_of_body ''ABONO X 100.00 0.00 900.00'') = round2 0"
    and c1c: "balance (movement_of_body ''ABONO X 100.00 0.00 900.00'') = Some (round2 900)"
    by blast+
  show ?thesis by (intro conjI h1 c1a c1b c1c h2 h3 c2)
qed

text \<open>
  The Banorte row \<open>ABONO X 100.00 0.00 900.00\<close>: the first value of the run, 100, is
  stored as the deposit, and the withdrawal (the debit) is the second value, 0.
\<close>

theorem banorte_first_is_deposit_counterexample:
  "snd (extract_amount_run ''ABONO X 100.00 0.00 900.00'') = [100, 0, 900]
   \<and> movement_of_body ''ABONO X 100.00 0.00 900.00''
       = \<lparr>description = ''ABONO X'', deposit = 100, withdrawal = 0, balance = Some 900\<rparr>"
  by code_simp

subsection \<open>Digit sequences of the form 0,000,xxx.xx\<close>

lemma grow_tail_subset:
  "set (fst (grow_tail s maxn earlier tail cs)) \<subseteq> set tail \<union> set earlier"
proof (induction earlier arbitrary: tail cs)
  case Nil
  show ?case by simp
next
  case (Cons m earlier)
  from Cons.IH [of "tail @ [m]" "fst m"]
  have h: "set (fst (grow_tail s maxn earlier (tail @ [m]) (fst m)))
             \<subseteq> set tail \<union> set (m # earlier)"
    by auto
  show ?case
  proof (cases "length tail < maxn \<and> strip (slice s (snd m) cs) = []")
    case True
    then have "grow_tail s maxn (m # earlier) tail cs
                 = grow_tail s maxn earlier (tail @ [m]) (fst m)"
      by simp
    then show ?thesis by (simp only: h)
  next
    case False
    then have "grow_tail s maxn (m # earlier) tail cs = (tail, cs)"
      by auto
    then show ?thesis by (simp only: fst_conv) blast
  qed
qed

lemma tail_matches_subset:
  "set (fst (tail_matches s maxn)) \<subseteq> set (tail_candidates s)"
proof (cases "rev (tail_candidates s)")
  case Nil
  then show ?thesis by (simp add: tail_matches_def)
next
  case (Cons l earlier)
  obtain tl cs where g: "grow_tail s maxn earlier [l] (fst l) = (tl, cs)"
    by (cases "grow_tail s maxn earlier [l] (fst l)") auto
  have "set (rev (tail_candidates s)) = insert l (set earlier)"
    unfolding Cons by simp
  then have se: "set (tail_candidates s) = insert l (set earlier)"
    by simp
  from grow_tail_subset [of s maxn earlier "[l]" "fst l"] g
  have "set tl \<subseteq> insert l (set earlier)" by simp
  with se show ?thesis by (simp add: tail_matches_def Cons g)
qed

text \<open>
  C8, as the code has it. The exclusion exists in Santander's \<open>_extract_tail_run\<close>, and
  only for a line that carries the BANCO INVEX tag: the amounts of the run are the
  normalised texts of the matches kept in \<open>tail\<close>, and on a tagged line none of them is a
  sequence of the form 0,000,xxx.xx. Banorte's \<open>_extract_amount_run\<close> has no exclusion.
\<close>

theorem santander_invex_sequence_never_an_amount:
  "snd (extract_tail_run line maxn)
     = map (\<lambda>m. norm_amount (Some (group0 (tail_line line) m)))
           (fst (tail_matches (tail_line line) maxn))
   \<and> (matches BANCOINVEX_TAG_RE (tail_line line) \<longrightarrow>
        (\<forall>m \<in> set (fst (tail_matches (tail_line line) maxn)).
           \<not> is_fake_amount (group0 (tail_line line) m)))"
proof -
  have p1: "snd (extract_tail_run line maxn)
     = map (\<lambda>m. norm_amount (Some (group0 (tail_line line) m)))
           (fst (tail_matches (tail_line line) maxn))"
  proof (cases "tail_candidates (tail_line line) = []")
    case True
    then show ?thesis by (simp add: extract_tail_run_def tail_matches_def)
  next
    case False
    then show ?thesis
      by (simp add: extract_tail_run_def Let_def split: prod.splits)
  qed
  have p2: "\<not> is_fake_amount (group0 (tail_line line) m)"
    if t: "matches BANCOINVEX_TAG_RE (tail_line line)"
      and m: "m \<in> set (fst (tail_matches (tail_line line) maxn))" for m
  proof -
    from m tail_matches_subset have "m \<in> set (tail_candidates (tail_line line))" by blast
    with t show ?thesis by (simp add: tail_candidates_def Let_def)
  qed
  from p1 p2 show ?thesis by blast
qed

text \<open>
  The Santander line \<open>SPEI BANCO INVEX 0,000,070.69 500.00 1,500.00\<close>: the run has the
  amounts 500 and 1500, and the sequence 0,000,070.69 is left in the description.
\<close>

theorem santander_invex_sequence_never_an_amount_witness:
  "matches BANCOINVEX_TAG_RE (tail_line ''SPEI BANCO INVEX 0,000,070.69 500.00 1,500.00'')
   \<and> is_fake_amount ''0,000,070.69''
   \<and> fst (tail_matches (tail_line ''SPEI BANCO INVEX 0,000,070.69 500.00 1,500.00'') 3)
       = [(29, 36), (36, 45)]
   \<and> \<not> is_fake_amount
         (group0 (tail_line ''SPEI BANCO INVEX 0,000,070.69 500.00 1,500.00'') (29, 36))
   \<and> \<not> is_fake_amount
         (group0 (tail_line ''SPEI BANCO INVEX 0,000,070.69 500.00 1,500.00'') (36, 45))
   \<and> extract_tail_run ''SPEI BANCO INVEX 0,000,070.69 500.00 1,500.00'' 3
       = (''SPEI BANCO INVEX 0,000,070.69'', [500, 1500])"
proof -
  let ?l = "''SPEI BANCO INVEX 0,000,070.69 500.00 1,500.00''"
  note t = santander_invex_sequence_never_an_amount [of ?l 3]
  have h: "matches BANCOINVEX_TAG_RE (tail_line ?l)" by code_simp
  have f: "is_fake_amount ''0,000,070.69''" by code_simp
  from t h have c: "\<forall>m \<in> set (fst (tail_matches (tail_line ?l) 3)).
         \<not> is_fake_amount (group0 (tail_line ?l) m)" by blast
  have m: "fst (tail_matches (tail_line ?l) 3) = [(29, 36), (36, 45)]" by code_simp
  have e: "extract_tail_run ?l 3 = (''SPEI BANCO INVEX 0,000,070.69'', [500, 1500])"
    by code_simp
  from c m have c1: "\<not> is_fake_amount (group0 (tail_line ?l) (29, 36))"
    and c2: "\<not> is_fake_amount (group0 (tail_line ?l) (36, 45))"
    by simp_all
  show ?thesis by (intro conjI h f m c1 c2 e)
qed

text \<open>
  The Banorte row \<open>SPEI BANCO INVEX 0,000,070.69 500.00\<close>: the sequence 0,000,070.69 is
  taken into the amount run as the amount 70.69.
\<close>

theorem banorte_invex_sequence_counterexample:
  "is_fake_amount ''0,000,070.69''
   \<and> extract_amount_run ''SPEI BANCO INVEX 0,000,070.69 500.00''
       = (''SPEI BANCO INVEX'', [7069 / 100, 500])"
  by code_simp

subsection \<open>The rows after a sentinel\<close>





subsection \<open>A movement open at the end of a page\<close>

text \<open>
  C5, as the code has it. In the BBVA extractor the movement open at the end of a page
  stays open: a row of the next page that has no dates and only the balance after the
  operation is merged into it, its amounts are kept, it gets that balance, and no
  movement is closed or created. In the Santander extractor every page ends with the
  open movement flushed, so no movement is open when the next page begins.
\<close>

theorem bbva_open_movement_carried:
  assumes "current_tx st = Some cur" and "cargos cur \<noteq> 0"
    and "\<not> is_stop_row (row_text_of r)" and "\<not> is_totals_row (row_text_of r)"
    and "cols = assign_cols 8 r bounds"
    and "cols ! 0 = []" and "cols ! 1 = []"
    and "\<not> contains ''DETALLE DE MOVIMIENTOS'' (upper (cols ! 2) @ upper (cols ! 3))"
    and "\<not> prefix ''- -'' (strip (cols ! 2))"
    and "cols ! 4 = []" and "cols ! 5 = []" and "cols ! 7 = []"
    and "matches AMOUNT_RE (cols ! 6)" and "strip (cols ! 6) \<noteq> []"
  shows "(\<exists>st' cur'. bbva_row y bounds (end_of_page st t) r = Returned (Goes_on st')
            \<and> txs st' = txs st \<and> current_tx st' = Some cur'
            \<and> f_oper cur' = f_oper cur \<and> cargos cur' = cargos cur \<and> abonos cur' = abonos cur
            \<and> s_oper cur' = Some (norm_amount (Some (cols ! 6))))
         \<and> (\<forall>sst pg sst'. santander_page sst pg = Returned sst' \<longrightarrow> current sst' = None)"
proof -
  have ne: "cols ! 6 \<noteq> []" using assms(14) by (auto simp: strip_def lstrip_def rstrip_def)
  have sa: "txs st = txs st \<and> f_oper (set_amounts c cols) = f_oper c
            \<and> cargos (set_amounts c cols) = cargos c \<and> abonos (set_amounts c cols) = abonos c
            \<and> s_oper (set_amounts c cols) = Some (norm_amount (Some (cols ! 6)))"
    if "cargos c \<noteq> 0" for c
    using that assms(10-12,14) ne
    by (simp add: set_amounts_def maybe_fix_amount_columns_def Let_def)
  have c1: "cargos (cur\<lparr>desc := x\<rparr>) \<noteq> 0" for x using assms(2) by simp
  have b: "\<exists>st' cur'. bbva_row y bounds (end_of_page st t) r = Returned (Goes_on st')
            \<and> txs st' = txs st \<and> current_tx st' = Some cur'
            \<and> f_oper cur' = f_oper cur \<and> cargos cur' = cargos cur \<and> abonos cur' = abonos cur
            \<and> s_oper cur' = Some (norm_amount (Some (cols ! 6)))"
    using assms(1,3-9,13) sa [OF assms(2)] sa [OF c1]
    by (simp add: bbva_row_def Let_def end_of_page_def assms(5) [symmetric])
  have s: "current sst' = None" if "santander_page sst pg = Returned sst'" for sst pg sst'
    using that
    by (auto simp: santander_page_def Let_def flush_current_def
          split: outcome.splits prod.splits option.splits if_splits)
  from b s show ?thesis by blast
qed

text \<open>
  The BBVA statement whose page 1 has the row \<open>03/ENE PAGO LUZ 150.00\<close> and whose page 2
  has the row \<open>9,850.00\<close> in the column of the balance: one movement with the debit 150
  and the balance 9850.
\<close>

theorem bbva_open_movement_carried_witness:
  "current_tx bbva_after_first_page = Some bbva_open_payment
   \<and> cargos bbva_open_payment \<noteq> 0
   \<and> \<not> is_stop_row (row_text_of (page_words bbva_second_page))
   \<and> \<not> is_totals_row (row_text_of (page_words bbva_second_page))
   \<and> assign_cols 8 (page_words bbva_second_page) (fst (bbva_page_rows bbva_second_page))
       = [[], [], [], [], [], [], ''9,850.00'', []]
   \<and> matches AMOUNT_RE ''9,850.00'' \<and> strip ''9,850.00'' \<noteq> []
   \<and> (\<exists>st' cur'. bbva_row 2024 (fst (bbva_page_rows bbva_second_page))
                     (end_of_page bbva_after_first_page False) (page_words bbva_second_page)
                   = Returned (Goes_on st')
            \<and> txs st' = txs bbva_after_first_page \<and> current_tx st' = Some cur'
            \<and> cargos cur' = cargos bbva_open_payment
            \<and> s_oper cur' = Some (norm_amount (Some ''9,850.00'')))
   \<and> bbva_movements 2024 [bbva_first_page, bbva_second_page]
       = Returned [bbva_open_payment\<lparr>s_oper := Some 9850\<rparr>]"
proof -
  let ?r = "page_words bbva_second_page"
  let ?b = "fst (bbva_page_rows bbva_second_page)"
  let ?cols = "[[], [], [], [], [], [], ''9,850.00'', []]"
  have h1: "current_tx bbva_after_first_page = Some bbva_open_payment"
    by (simp add: bbva_after_first_page_def)
  have h2: "cargos bbva_open_payment \<noteq> 0" by (simp add: bbva_open_payment_def)
  have h3: "\<not> is_stop_row (row_text_of ?r)" by code_simp
  have h4: "\<not> is_totals_row (row_text_of ?r)" by code_simp
  have h5: "assign_cols 8 ?r ?b = ?cols" by code_simp
  have h6: "?cols ! 0 = []" and h7: "?cols ! 1 = []" by simp_all
  have h8: "\<not> contains ''DETALLE DE MOVIMIENTOS'' (upper (?cols ! 2) @ upper (?cols ! 3))"
    by code_simp
  have h9: "\<not> prefix ''- -'' (strip (?cols ! 2))" by code_simp
  have h10: "?cols ! 4 = []" and h11: "?cols ! 5 = []" and h12: "?cols ! 7 = []" by simp_all
  have a: "matches AMOUNT_RE ''9,850.00''" by code_simp
  have s: "strip ''9,850.00'' \<noteq> []" by code_simp
  have h13: "matches AMOUNT_RE (?cols ! 6)" using a by simp
  have h14: "strip (?cols ! 6) \<noteq> []" using s by simp
  from bbva_open_movement_carried [OF h1 h2 h3 h4 h5 [symmetric] h6 h7 h8 h9 h10 h11 h12 h13 h14,
         of 2024 False]
  have c: "\<exists>st' cur'. bbva_row 2024 ?b (end_of_page bbva_after_first_page False) ?r
                   = Returned (Goes_on st')
            \<and> txs st' = txs bbva_after_first_page \<and> current_tx st' = Some cur'
            \<and> cargos cur' = cargos bbva_open_payment
            \<and> s_oper cur' = Some (norm_amount (Some ''9,850.00''))"
    by auto
  have e: "bbva_movements 2024 [bbva_first_page, bbva_second_page]
       = Returned [bbva_open_payment\<lparr>s_oper := Some 9850\<rparr>]"
    by code_simp
  show ?thesis by (intro conjI h1 h2 h3 h4 h5 a s c e)
qed

text \<open>
  The Santander statement whose page 1 has the row \<open>03-ENE-2024 PAGO LUZ 150.00\<close> and
  whose page 2 has the row \<open>9,850.00\<close> in the column of the balance: the movement is
  emitted at the end of page 1 and the row of page 2 is dropped, so the balance 9850 is
  lost, while the same rows on a single page give the movement that balance.
\<close>

theorem santander_flushes_at_page_end_counterexample:
  "santander_movements [santander_first_page, santander_second_page]
     = Returned ([\<lparr>sx_f_oper = Some (2024, 1, 3), sx_folio = None, sx_desc = ''PAGO LUZ'',
                   deposito = 0, retiro = 150, saldo = Some 150\<rparr>], [])
   \<and> santander_movements [santander_single_page]
     = Returned ([\<lparr>sx_f_oper = Some (2024, 1, 3), sx_folio = None, sx_desc = ''PAGO LUZ'',
                   deposito = 0, retiro = 150, saldo = Some 9850\<rparr>], [])"
proof -
  have a: "santander_movements [santander_first_page, santander_second_page]
     = Returned ([\<lparr>sx_f_oper = Some (2024, 1, 3), sx_folio = None, sx_desc = ''PAGO LUZ'',
                   deposito = 0, retiro = 150, saldo = Some 150\<rparr>], [])"
    by code_simp
  have b: "santander_movements [santander_single_page]
     = Returned ([\<lparr>sx_f_oper = Some (2024, 1, 3), sx_folio = None, sx_desc = ''PAGO LUZ'',
                   deposito = 0, retiro = 150, saldo = Some 9850\<rparr>], [])"
    by code_simp
  show ?thesis by (intro conjI a b)
qed

end
